theory Spec2Isabelle
  imports Complex_Main "HOL-Library.Char_ord" "HOL-Library.List_Lexorder" "HOL-Library.Multiset"
begin

section \<open>The accumulation engine of \<^verbatim>\<open>bridge/emergent_intelligence.py\<close>\<close>

text \<open>
  The theory embeds the class \<^verbatim>\<open>EmergentIntelligence\<close> and the request handler
  \<^verbatim>\<open>process_video\<close> of \<^verbatim>\<open>bridge/ml_connector.py\<close>. A Python float is the
  real that it denotes. \<^verbatim>\<open>np.mean\<close>, whose rounding decides the ranking, is an
  argument of the functions that call it; the quotients of the snapshot and the scaling
  of a random draw are written over the reals, and no statement below depends on how
  they round. Python's unbounded integers are \<open>int\<close>, and a method that mutates \<^verbatim>\<open>self.state\<close> takes the
  state and returns the new one. A leading underscore of a Python name is dropped
  (\<^verbatim>\<open>_get_top_patterns\<close> is \<open>get_top_patterns\<close>).
\<close>

subsection \<open>Python dictionaries, in insertion order\<close>

text \<open>
  A Python \<^verbatim>\<open>dict\<close> iterates in insertion order, and the ranking below depends on
  that order, so a dictionary is an association list: \<^verbatim>\<open>d[k] = v\<close> replaces the
  value of a present key in place and appends an absent key at the end.
\<close>

type_synonym ('k, 'v) dict = "('k \<times> 'v) list"

datatype py_error = KeyError | TypeError | OSError | EOFError | UnpicklingError

definition dict_contains :: "('k, 'v) dict \<Rightarrow> 'k \<Rightarrow> bool" where
  "dict_contains d k = (k \<in> set (map fst d))"

definition dict_get :: "('k, 'v) dict \<Rightarrow> 'k \<Rightarrow> 'v option" where
  "dict_get d k = map_of d k"

fun dict_set :: "('k, 'v) dict \<Rightarrow> 'k \<Rightarrow> 'v \<Rightarrow> ('k, 'v) dict" where
  "dict_set [] k v = [(k, v)]"
| "dict_set ((k', v') # d) k v =
     (if k' = k then (k, v) # d else (k', v') # dict_set d k v)"

definition get_or :: "'a option \<Rightarrow> 'a \<Rightarrow> 'a" where
  \<comment> \<open>\<^verbatim>\<open>d.get(key, default)\<close> for a key that may be missing\<close>
  "get_or x dflt = (case x of None \<Rightarrow> dflt | Some v \<Rightarrow> v)"

subsection \<open>Discoveries and the accumulated state\<close>

text \<open>
  The records of one discovery are Python dictionaries. A key that the code reads is a
  field of option type: \<open>None\<close> is the missing key, so that \<^verbatim>\<open>pattern['type']\<close>
  can raise \<^verbatim>\<open>KeyError\<close> and \<^verbatim>\<open>pattern.get('strength', 0)\<close> can take its default.

  A key of the discovery dictionary itself is absent, or holds a list of records, or holds
  a value that has no length and cannot be iterated (Python's \<^verbatim>\<open>None\<close>, a number),
  on which \<^verbatim>\<open>len\<close> and \<^verbatim>\<open>for\<close> raise \<^verbatim>\<open>TypeError\<close>.
\<close>

datatype 'a field = Absent | Unsized | Listed "'a list"

definition py_len :: "'a field \<Rightarrow> py_error + nat" where
  \<comment> \<open>\<^verbatim>\<open>len(discoveries.get(key, []))\<close>\<close>
  "py_len f = (case f of Absent \<Rightarrow> Inr 0 | Unsized \<Rightarrow> Inl TypeError | Listed xs \<Rightarrow> Inr (length xs))"

definition py_iter :: "'a field \<Rightarrow> py_error + 'a list" where
  \<comment> \<open>the records that \<^verbatim>\<open>for x in discoveries.get(key, [])\<close> visits\<close>
  "py_iter f = (case f of Absent \<Rightarrow> Inr [] | Unsized \<Rightarrow> Inl TypeError | Listed xs \<Rightarrow> Inr xs)"

definition field_items :: "'a field \<Rightarrow> 'a list" where
  \<comment> \<open>the records under a key: those of its list, and none when there is no list\<close>
  "field_items f = (case f of Listed xs \<Rightarrow> xs | _ \<Rightarrow> [])"

record pattern =
  p_type :: "string option"
  p_description :: "string option"
  p_strength :: "real option"
  p_confidence :: "real option"
  p_occurrences :: "int option"

record correlation =
  feature_a :: "string option"
  feature_b :: "string option"
  correlation :: "real option"
  significance :: "real option"
  lag :: "int option"

record meta_pattern =
  m_type :: string
  m_description :: string
  trajectory :: string
  acceleration :: real

record unknown_signal =
  variance :: real
  kurtosis :: real
  emergence_potential :: string
  requires_investigation :: bool

record discovery =
  patterns :: "pattern field"
  correlations :: "correlation field"
  unknown :: "unknown_signal field"
  meta_patterns :: "meta_pattern field"

record strength_entry =
  se_video :: int
  se_strength :: real

record correlation_entry =
  ce_video :: int
  ce_value :: real

record discovery_entry =
  de_video :: int
  de_timestamp :: string
  patterns_found :: nat
  correlations_found :: nat
  unknown_signals :: nat

record intel_state =
  videos_processed :: int
  total_patterns :: int
  total_correlations :: int
  unknown_space_used :: real
  creation_time :: string
  discoveries :: "discovery_entry list"
  pattern_strengths :: "(string, strength_entry list) dict"
  correlation_matrix :: "(string, correlation_entry list) dict"
  state_meta_patterns :: "meta_pattern list"
  last_checkpoint :: "string option"

definition fresh_state :: "string \<Rightarrow> intel_state" where
  \<comment> \<open>the dictionary of \<^verbatim>\<open>_load_or_initialize_state\<close> when no checkpoint exists;
      the argument is \<^verbatim>\<open>datetime.now().isoformat()\<close>\<close>
  "fresh_state now =
     \<lparr>videos_processed = 0, total_patterns = 0, total_correlations = 0,
      unknown_space_used = 0, creation_time = now, discoveries = [],
      pattern_strengths = [], correlation_matrix = [], state_meta_patterns = [],
      last_checkpoint = None\<rparr>"

subsection \<open>\<^verbatim>\<open>update_intelligence\<close>\<close>

definition pattern_id :: "string \<Rightarrow> pattern \<Rightarrow> string" where
  \<comment> \<open>\<^verbatim>\<open>f"{pattern['type']}_{pattern.get('description', '')[:20]}"\<close>\<close>
  "pattern_id t p = t @ ''_'' @ take 20 (get_or (p_description p) '''')"

text \<open>
  The two loops of the method. Each returns the state as the loop left it together with
  the exception that stopped it, if one did: the state is mutated in place, so what was
  written before a \<^verbatim>\<open>KeyError\<close> stays written.
\<close>

fun track_patterns :: "intel_state \<Rightarrow> pattern list \<Rightarrow> int \<Rightarrow> intel_state \<times> py_error option" where
  "track_patterns st [] v = (st, None)"
| "track_patterns st (p # ps) v =
     (case p_type p of
        None \<Rightarrow> (st, Some KeyError)
      | Some t \<Rightarrow>
          let pid = pattern_id t p;
              st1 = (if \<not> dict_contains (pattern_strengths st) pid
                     then st\<lparr>pattern_strengths := dict_set (pattern_strengths st) pid []\<rparr>
                     else st)
          in (case dict_get (pattern_strengths st1) pid of
                None \<Rightarrow> (st1, Some KeyError)
              | Some h \<Rightarrow>
                  track_patterns
                    (st1\<lparr>pattern_strengths :=
                       dict_set (pattern_strengths st1) pid
                         (h @ [\<lparr>se_video = v, se_strength = get_or (p_strength p) 0\<rparr>])\<rparr>)
                    ps v))"

fun track_correlations :: "intel_state \<Rightarrow> correlation list \<Rightarrow> int \<Rightarrow> intel_state \<times> py_error option" where
  "track_correlations st [] v = (st, None)"
| "track_correlations st (c # cs) v =
     (case feature_a c of
        None \<Rightarrow> (st, Some KeyError)
      | Some a \<Rightarrow>
         (case feature_b c of
            None \<Rightarrow> (st, Some KeyError)
          | Some b \<Rightarrow>
              let key = a @ ''_'' @ b;
                  st1 = (if \<not> dict_contains (correlation_matrix st) key
                         then st\<lparr>correlation_matrix := dict_set (correlation_matrix st) key []\<rparr>
                         else st)
              in (case dict_get (correlation_matrix st1) key of
                    None \<Rightarrow> (st1, Some KeyError)
                  | Some h \<Rightarrow>
                     (case correlation c of
                        None \<Rightarrow> (st1, Some KeyError)
                      | Some x \<Rightarrow>
                          track_correlations
                            (st1\<lparr>correlation_matrix :=
                               dict_set (correlation_matrix st1) key
                                 (h @ [\<lparr>ce_video = v, ce_value = x\<rparr>])\<rparr>)
                            cs v))))"

definition update_intelligence_body ::
  "intel_state \<Rightarrow> discovery \<Rightarrow> int \<Rightarrow> string \<Rightarrow> intel_state \<times> py_error option" where
  \<comment> \<open>the \<^verbatim>\<open>try\<close> block, statement by statement; the last argument is
      \<^verbatim>\<open>datetime.now().isoformat()\<close>. The two lengths of the log entry are those
      already taken for the totals.\<close>
  "update_intelligence_body st d video_number now =
     (let st1 = st\<lparr>videos_processed := videos_processed st + 1\<rparr>
      in (case py_len (patterns d) of
            Inl e \<Rightarrow> (st1, Some e)
          | Inr n_patterns \<Rightarrow>
      let st2 = st1\<lparr>total_patterns := total_patterns st1 + int n_patterns\<rparr>
      in (case py_len (correlations d) of
            Inl e \<Rightarrow> (st2, Some e)
          | Inr n_correlations \<Rightarrow>
      let st3 = st2\<lparr>total_correlations := total_correlations st2 + int n_correlations\<rparr>
      in (case py_iter (patterns d) of
            Inl e \<Rightarrow> (st3, Some e)
          | Inr ps \<Rightarrow>
         (case track_patterns st3 ps video_number of
            (st4, Some e) \<Rightarrow> (st4, Some e)
          | (st4, None) \<Rightarrow>
         (case py_iter (correlations d) of
            Inl e \<Rightarrow> (st4, Some e)
          | Inr cs \<Rightarrow>
         (case track_correlations st4 cs video_number of
            (st5, Some e) \<Rightarrow> (st5, Some e)
          | (st5, None) \<Rightarrow>
         (case py_len (unknown d) of
            Inl e \<Rightarrow> (st5, Some e)
          | Inr n_unknown \<Rightarrow>
              (st5\<lparr>discoveries := discoveries st5 @
                   [\<lparr>de_video = video_number, de_timestamp = now,
                     patterns_found = n_patterns,
                     correlations_found = n_correlations,
                     unknown_signals = n_unknown\<rparr>]\<rparr>,
               None)))))))))"

definition update_intelligence :: "intel_state \<Rightarrow> discovery \<Rightarrow> int \<Rightarrow> string \<Rightarrow> bool \<times> intel_state" where
  \<comment> \<open>the returned flag, and \<^verbatim>\<open>self.state\<close> after the call\<close>
  "update_intelligence st d video_number now =
     (case update_intelligence_body st d video_number now of
        (st', None) \<Rightarrow> (True, st')
      | (st', Some e) \<Rightarrow> (False, st'))"

text \<open>
  A caller issuing one \<^verbatim>\<open>update_intelligence\<close> after another: the calls are
  \<open>(discoveries, video_number, clock reading)\<close>, and the run returns the flags of all
  calls with the last state.
\<close>

fun update_all :: "intel_state \<Rightarrow> (discovery \<times> int \<times> string) list \<Rightarrow> bool list \<times> intel_state" where
  "update_all st [] = ([], st)"
| "update_all st ((d, v, now) # calls) =
     (let (ok, st1) = update_intelligence st d v now;
          (oks, st2) = update_all st1 calls
      in (ok # oks, st2))"

subsection \<open>Slices, \<^verbatim>\<open>max\<close> and \<^verbatim>\<open>sort\<close> of Python lists\<close>

definition py_slice_to :: "'a list \<Rightarrow> int \<Rightarrow> 'a list" where
  \<comment> \<open>\<^verbatim>\<open>xs[:n]\<close>: a negative bound counts from the end\<close>
  "py_slice_to xs n =
     (if 0 \<le> n then take (nat n) xs else take (length xs - nat (- n)) xs)"

definition py_slice_from :: "'a list \<Rightarrow> int \<Rightarrow> 'a list" where
  \<comment> \<open>\<^verbatim>\<open>xs[i:]\<close>: a negative bound counts from the end, and \<^verbatim>\<open>-0\<close> is \<^verbatim>\<open>0\<close>\<close>
  "py_slice_from xs i =
     (if 0 \<le> i then drop (nat i) xs else drop (length xs - nat (- i)) xs)"

definition py_sort_reverse :: "('a \<Rightarrow> 'k::linorder) \<Rightarrow> 'a list \<Rightarrow> 'a list" where
  \<comment> \<open>\<^verbatim>\<open>xs.sort(key=f, reverse=True)\<close>: the list is reversed, sorted by a stable
      ascending sort, and reversed again, which keeps equal keys in their first order\<close>
  "py_sort_reverse f xs = rev (sort_key f (rev xs))"

text \<open>
  \<^verbatim>\<open>max(xs, key=f)\<close> on a non-empty list \<open>best # xs\<close> returns the first of
  the maximal elements.
\<close>

fun py_max_from :: "('a \<Rightarrow> 'k::linorder) \<Rightarrow> 'a \<Rightarrow> 'a list \<Rightarrow> 'a" where
  "py_max_from f best [] = best"
| "py_max_from f best (x # xs) = py_max_from f (if f best < f x then x else best) xs"

subsection \<open>Ranking and emergence analysis\<close>

record ranked_pattern =
  rp_pattern :: string
  average_strength :: real
  rp_occurrences :: nat
  first_seen :: int
  last_seen :: int

text \<open>
  The strengths are floating-point numbers, each of them a real, and comparing two of
  them is comparing the reals. \<^verbatim>\<open>np.mean\<close> is a function of the library: it sums and
  divides with rounding, so its result need not be the exact mean. It is the first
  argument \<open>np_mean\<close> of the ranking, and nothing is assumed of it but what a
  statement says. \<open>exact_mean\<close> is the mean without rounding, which
  \<^verbatim>\<open>np.mean\<close> returns wherever its sum and its quotient are exact.
\<close>

definition exact_mean :: "real list \<Rightarrow> real" where
  "exact_mean xs = sum_list xs / real (length xs)"

fun patterns_with_strength ::
  "(real list \<Rightarrow> real) \<Rightarrow> (string, strength_entry list) dict \<Rightarrow> ranked_pattern list" where
  \<comment> \<open>the loop of \<^verbatim>\<open>_get_top_patterns\<close> over \<^verbatim>\<open>pattern_strengths.items()\<close>\<close>
  "patterns_with_strength np_mean [] = []"
| "patterns_with_strength np_mean ((pid, strength_history) # rest) =
     (if strength_history \<noteq> []
      then \<lparr>rp_pattern = pid,
            average_strength = np_mean (map se_strength strength_history),
            rp_occurrences = length strength_history,
            first_seen = se_video (hd strength_history),
            last_seen = se_video (last strength_history)\<rparr>
           # patterns_with_strength np_mean rest
      else patterns_with_strength np_mean rest)"

definition sorted_patterns :: "(real list \<Rightarrow> real) \<Rightarrow> intel_state \<Rightarrow> ranked_pattern list" where
  \<comment> \<open>the list \<^verbatim>\<open>patterns_with_strength\<close> after its \<^verbatim>\<open>sort\<close>\<close>
  "sorted_patterns np_mean st =
     py_sort_reverse average_strength (patterns_with_strength np_mean (pattern_strengths st))"

definition get_top_patterns ::
  "(real list \<Rightarrow> real) \<Rightarrow> intel_state \<Rightarrow> int \<Rightarrow> ranked_pattern list" where
  "get_top_patterns np_mean st limit = py_slice_to (sorted_patterns np_mean st) limit"

record emergence_event =
  ev_video :: int
  ev_pattern :: string
  initial_strength :: real

fun emergence_events :: "(string, strength_entry list) dict \<Rightarrow> emergence_event list" where
  \<comment> \<open>the loop of \<^verbatim>\<open>_get_pattern_evolution_summary\<close>\<close>
  "emergence_events [] = []"
| "emergence_events ((pid, history) # rest) =
     (if history \<noteq> [] \<and> se_strength (hd history) > 8 / 10
      then \<lparr>ev_video = se_video (hd history), ev_pattern = pid,
            initial_strength = se_strength (hd history)\<rparr>
           # emergence_events rest
      else emergence_events rest)"

record evolution_summary =
  total_videos :: int
  patterns_discovered :: int
  es_correlations_found :: int
  es_emergence_events :: "emergence_event list"

definition get_pattern_evolution_summary :: "intel_state \<Rightarrow> evolution_summary" where
  "get_pattern_evolution_summary st =
     \<lparr>total_videos = videos_processed st,
      patterns_discovered = total_patterns st,
      es_correlations_found = total_correlations st,
      es_emergence_events = emergence_events (pattern_strengths st)\<rparr>"

text \<open>
  The ordering that the specification words for the ranking: mean strength descending,
  then occurrence count descending, then the key in lexical order. It is the
  specification's side of the comparison and is not taken from the code.
\<close>

definition spec_ranked_before :: "ranked_pattern \<Rightarrow> ranked_pattern \<Rightarrow> bool" where
  "spec_ranked_before x y =
     (average_strength y < average_strength x \<or>
      (average_strength x = average_strength y \<and>
       (rp_occurrences y < rp_occurrences x \<or>
        (rp_occurrences x = rp_occurrences y \<and>
         rp_pattern x \<le> rp_pattern y))))"

subsection \<open>The engine object and its queries\<close>

text \<open>
  Of the attributes that \<^verbatim>\<open>__init__\<close> sets, only \<^verbatim>\<open>state\<close> and
  \<^verbatim>\<open>unknown_space\<close> are read by a method; the others are never used again.
\<close>

record engine =
  state :: intel_state
  unknown_space :: "unknown_signal list"

record metrics =
  pattern_diversity :: nat
  correlation_density :: nat
  discovery_rate :: real

record state_view =
  sv_videos_processed :: int
  sv_total_patterns :: int
  sv_total_correlations :: int
  sv_unknown_space_used :: real
  sv_last_checkpoint :: "string option"
  sv_metrics :: metrics

definition get_current_state :: "engine \<Rightarrow> state_view" where
  "get_current_state e =
     \<lparr>sv_videos_processed = videos_processed (state e),
      sv_total_patterns = total_patterns (state e),
      sv_total_correlations = total_correlations (state e),
      sv_unknown_space_used = real (length (unknown_space e)) / 1000,
      sv_last_checkpoint = last_checkpoint (state e),
      sv_metrics =
        \<lparr>pattern_diversity = length (pattern_strengths (state e)),
         correlation_density = length (correlation_matrix (state e)),
         discovery_rate =
           real_of_int (total_patterns (state e)) /
           real_of_int (max 1 (videos_processed (state e)))\<rparr>\<rparr>"

definition get_recent_discoveries :: "intel_state \<Rightarrow> int \<Rightarrow> discovery_entry list" where
  \<comment> \<open>\<^verbatim>\<open>self.state["discoveries"][-limit:] if self.state["discoveries"] else []\<close>\<close>
  "get_recent_discoveries st limit =
     (if discoveries st \<noteq> [] then py_slice_from (discoveries st) (- limit) else [])"

subsection \<open>The discovery functions\<close>

text \<open>
  The discovery functions draw from \<^verbatim>\<open>np.random\<close> and read nothing of the feature
  bundle. Each draw that the code can make is a field of \<open>draws\<close>, so that a
  discovery is a function of the state and the draws. \<open>unknown_std\<close> is
  \<^verbatim>\<open>np.std\<close> of the hundred normal samples of \<^verbatim>\<open>_explore_unknown_space\<close>.
\<close>

record draws =
  micro_gate :: real
  micro_strength :: real
  micro_confidence :: real
  micro_occurrences :: int
  cross_gate :: real
  cross_strength :: real
  cross_confidence :: real
  corr_value :: real
  corr_significance :: real
  corr_lag :: int
  meta_acceleration :: real
  unknown_std :: real
  unknown_kurtosis :: real

datatype json =
  JNum real | JStr string | JBool bool | JList "json list" | JDict "(string \<times> json) list"

type_synonym features = "(string, json) dict"

definition find_emergent_patterns :: "draws \<Rightarrow> features \<Rightarrow> pattern list" where
  "find_emergent_patterns rnd fs =
     (if micro_gate rnd > 3 / 10
      then [\<lparr>p_type = Some ''micro_temporal'',
             p_description = Some ''Eyebrow AU2 at 43.2s correlates with positive outcome'',
             p_strength = Some (micro_strength rnd),
             p_confidence = Some (micro_confidence rnd),
             p_occurrences = Some (micro_occurrences rnd)\<rparr>]
      else []) @
     (if cross_gate rnd > 4 / 10
      then [\<lparr>p_type = Some ''cross_modal'',
             p_description = Some ''Voice pitch drop + shoulder rotation = decision point'',
             p_strength = Some (cross_strength rnd),
             p_confidence = Some (cross_confidence rnd),
             p_occurrences = None\<rparr>]
      else [])"

definition discover_correlations :: "draws \<Rightarrow> features \<Rightarrow> correlation list" where
  "discover_correlations rnd fs =
     [\<lparr>feature_a = Some ''facial.landmarks[123]'',
       feature_b = Some ''audio.prosody[45]'',
       correlation = Some (corr_value rnd * 2 - 1),
       significance = Some (corr_significance rnd),
       lag = Some (corr_lag rnd)\<rparr>]"

definition find_meta_patterns :: "intel_state \<Rightarrow> draws \<Rightarrow> features \<Rightarrow> meta_pattern list" where
  "find_meta_patterns st rnd fs =
     (if videos_processed st > 10
      then [\<lparr>m_type = ''pattern_evolution'',
             m_description = ''Pattern strength increases after video 100'',
             trajectory = ''ascending'',
             acceleration = meta_acceleration rnd\<rparr>]
      else [])"

definition explore_unknown_space :: "draws \<Rightarrow> features \<Rightarrow> unknown_signal list" where
  "explore_unknown_space rnd fs =
     (if unknown_std rnd > 15 / 10
      then [\<lparr>variance = unknown_std rnd,
             kurtosis = unknown_kurtosis rnd,
             emergence_potential = ''high'',
             requires_investigation = True\<rparr>]
      else [])"

definition discover_patterns ::
  "intel_state \<Rightarrow> draws \<Rightarrow> features \<Rightarrow> int \<Rightarrow> bool \<Rightarrow> discovery" where
  \<comment> \<open>the closing loop of the method only writes to the log\<close>
  "discover_patterns st rnd fs video_number use_previous_intelligence =
     (let d0 = \<lparr>patterns = Listed [], correlations = Listed [], unknown = Listed [],
                meta_patterns = Listed []\<rparr>;
          d1 = (if use_previous_intelligence \<and> videos_processed st > 0
                then d0\<lparr>patterns := Listed (find_emergent_patterns rnd fs),
                        correlations := Listed (discover_correlations rnd fs),
                        meta_patterns := Listed (find_meta_patterns st rnd fs)\<rparr>
                else d0)
      in d1\<lparr>unknown := Listed (explore_unknown_space rnd fs)\<rparr>)"

definition extract_everything :: "(string \<Rightarrow> json) \<Rightarrow> string \<Rightarrow> features" where
  \<comment> \<open>five modalities, each filled with simulated signals; \<open>sim\<close> gives the
      simulated content of a modality\<close>
  "extract_everything sim video_path =
     [(''facial'', sim ''facial''), (''audio'', sim ''audio''),
      (''temporal'', sim ''temporal''), (''cross_modal'', sim ''cross_modal''),
      (''unknown'', sim ''unknown'')]"

subsection \<open>The checkpoint store\<close>

text \<open>
  The two directories of the engine are dictionaries from file name to file, in the
  order in which a listing returns them. \<^verbatim>\<open>pickle\<close> and \<^verbatim>\<open>json\<close> store the
  value they are given, and a file whose \<^verbatim>\<open>dump\<close> raised holds a truncated
  stream. Whether the operating system lets a write succeed, and the clock, are
  arguments.
\<close>

record readable_state =
  rs_videos_processed :: int
  rs_total_patterns :: int
  rs_total_correlations :: int
  top_patterns :: "ranked_pattern list"
  pattern_evolution :: evolution_summary

record storage_data =
  sd_video_number :: int
  sd_timestamp :: string
  sd_features :: features
  filtered :: bool
  judged :: bool
  stored_everything :: bool

datatype file_content =
  Pickled intel_state | Summary readable_state | RawFeatures storage_data | Truncated

record stored_file =
  mtime :: nat
  content :: file_content

record filesystem =
  checkpoint_dir :: "(string, stored_file) dict"
  discovery_dir :: "(string, stored_file) dict"

datatype write_outcome = Written | OpenFails | DumpFails

definition write_file ::
  "write_outcome \<Rightarrow> nat \<Rightarrow> (string, stored_file) dict \<Rightarrow> string \<Rightarrow> file_content
     \<Rightarrow> (string, stored_file) dict \<times> py_error option" where
  \<comment> \<open>\<^verbatim>\<open>with open(path, 'w') as f: dump(obj, f)\<close> at clock reading \<open>t\<close>\<close>
  "write_file w t dir name c =
     (case w of
        OpenFails \<Rightarrow> (dir, Some OSError)
      | DumpFails \<Rightarrow> (dict_set dir name \<lparr>mtime = t, content = Truncated\<rparr>, Some TypeError)
      | Written \<Rightarrow> (dict_set dir name \<lparr>mtime = t, content = c\<rparr>, None))"

fun decimal :: "nat \<Rightarrow> string" where
  "decimal n =
     (if n < 10 then [''0123456789'' ! n]
      else decimal (n div 10) @ [''0123456789'' ! (n mod 10)])"

definition format_04d :: "int \<Rightarrow> string" where
  \<comment> \<open>\<^verbatim>\<open>f"{n:04d}"\<close>: zero padding to width four, the sign included\<close>
  "format_04d n =
     (if n < 0
      then ''-'' @ replicate (3 - length (decimal (nat (- n)))) CHR ''0'' @ decimal (nat (- n))
      else replicate (4 - length (decimal (nat n))) CHR ''0'' @ decimal (nat n))"

definition checkpoint_path :: "int \<Rightarrow> string" where
  "checkpoint_path video_number = ''intelligence_v'' @ format_04d video_number @ ''.pkl''"

definition discoveries_path :: "int \<Rightarrow> string" where
  "discoveries_path video_number = ''discoveries_v'' @ format_04d video_number @ ''.json''"

definition storage_path :: "int \<Rightarrow> string" where
  "storage_path video_number = ''raw_features_v'' @ format_04d video_number @ ''.json''"

definition save_checkpoint_body ::
  "(real list \<Rightarrow> real) \<Rightarrow> write_outcome \<Rightarrow> write_outcome \<Rightarrow> nat \<Rightarrow> filesystem \<Rightarrow> engine \<Rightarrow> int
     \<Rightarrow> filesystem \<times> py_error option" where
  \<comment> \<open>the \<^verbatim>\<open>try\<close> block: the pickle of the state, then the readable summary,
      whose ranking calls \<^verbatim>\<open>np.mean\<close>\<close>
  "save_checkpoint_body np_mean w_pickle w_summary t fs e video_number =
     (case write_file w_pickle t (checkpoint_dir fs) (checkpoint_path video_number)
             (Pickled (state e)) of
        (dir1, Some err) \<Rightarrow> (fs\<lparr>checkpoint_dir := dir1\<rparr>, Some err)
      | (dir1, None) \<Rightarrow>
          let readable_state =
                \<lparr>rs_videos_processed = videos_processed (state e),
                 rs_total_patterns = total_patterns (state e),
                 rs_total_correlations = total_correlations (state e),
                 top_patterns = get_top_patterns np_mean (state e) 10,
                 pattern_evolution = get_pattern_evolution_summary (state e)\<rparr>
          in (case write_file w_summary t dir1 (discoveries_path video_number)
                     (Summary readable_state) of
                (dir2, r) \<Rightarrow> (fs\<lparr>checkpoint_dir := dir2\<rparr>, r)))"

definition save_checkpoint ::
  "(real list \<Rightarrow> real) \<Rightarrow> write_outcome \<Rightarrow> write_outcome \<Rightarrow> nat \<Rightarrow> filesystem \<Rightarrow> engine \<Rightarrow> int
     \<Rightarrow> bool \<times> filesystem" where
  "save_checkpoint np_mean w_pickle w_summary t fs e video_number =
     (case save_checkpoint_body np_mean w_pickle w_summary t fs e video_number of
        (fs', None) \<Rightarrow> (True, fs')
      | (fs', Some err) \<Rightarrow> (False, fs'))"

definition glob_checkpoint :: "string \<Rightarrow> bool" where
  \<comment> \<open>the pattern \<^verbatim>\<open>intelligence_v*.pkl\<close>\<close>
  "glob_checkpoint name =
     (length ''intelligence_v'' + length ''.pkl'' \<le> length name \<and>
      take (length ''intelligence_v'') name = ''intelligence_v'' \<and>
      drop (length name - length ''.pkl'') name = ''.pkl'')"

definition find_latest_checkpoint :: "filesystem \<Rightarrow> string option" where
  "find_latest_checkpoint fs =
     (case filter (\<lambda>(name, f). glob_checkpoint name) (checkpoint_dir fs) of
        [] \<Rightarrow> None
      | c # cs \<Rightarrow> Some (fst (py_max_from (\<lambda>(name, f). mtime f) c cs)))"

definition load_or_initialize_state :: "filesystem \<Rightarrow> string \<Rightarrow> py_error + intel_state" where
  \<comment> \<open>\<^verbatim>\<open>open\<close> and \<^verbatim>\<open>pickle.load\<close> are outside any \<^verbatim>\<open>try\<close>: their
      exceptions leave the constructor\<close>
  "load_or_initialize_state fs now =
     (case find_latest_checkpoint fs of
        Some latest_checkpoint \<Rightarrow>
          (case dict_get (checkpoint_dir fs) latest_checkpoint of
             None \<Rightarrow> Inl OSError
           | Some f \<Rightarrow>
               (case content f of
                  Pickled st \<Rightarrow> Inr st
                | Truncated \<Rightarrow> Inl EOFError
                | _ \<Rightarrow> Inl UnpicklingError))
      | None \<Rightarrow> Inr (fresh_state now))"

definition engine_init :: "filesystem \<Rightarrow> string \<Rightarrow> py_error + engine" where
  \<comment> \<open>\<^verbatim>\<open>EmergentIntelligence()\<close> over an existing pair of directories\<close>
  "engine_init fs now =
     (case load_or_initialize_state fs now of
        Inl err \<Rightarrow> Inl err
      | Inr st \<Rightarrow> Inr \<lparr>state = st, unknown_space = []\<rparr>)"

definition store_raw_features ::
  "write_outcome \<Rightarrow> nat \<Rightarrow> string \<Rightarrow> filesystem \<Rightarrow> int \<Rightarrow> features \<Rightarrow> bool \<times> filesystem" where
  "store_raw_features w t now fs video_number fts =
     (case write_file w t (discovery_dir fs) (storage_path video_number)
             (RawFeatures \<lparr>sd_video_number = video_number, sd_timestamp = now,
                sd_features = fts, filtered = False, judged = False,
                stored_everything = True\<rparr>) of
        (dir1, None) \<Rightarrow> (True, fs\<lparr>discovery_dir := dir1\<rparr>)
      | (dir1, Some err) \<Rightarrow> (False, fs\<lparr>discovery_dir := dir1\<rparr>))"

subsection \<open>The handler \<^verbatim>\<open>process_video\<close>\<close>

record video_process_request =
  video_path :: string
  video_number :: int
  rq_extract_everything :: bool
  store_raw :: bool
  rq_discover_patterns :: bool

record discovery_response =
  rs_video_number :: int
  features_extracted :: nat
  rs_patterns_discovered :: "pattern list"
  rs_correlations_found :: "correlation list"
  rs_unknown_signals :: "unknown_signal list"
  intelligence_updated :: bool
  checkpoint_saved :: bool

text \<open>
  What one request reads from outside the program: \<^verbatim>\<open>np.mean\<close> as \<open>mean_of\<close>, the
  simulated signals, the random draws, the clock and the outcome of each write.
\<close>

record outside =
  mean_of :: "real list \<Rightarrow> real"
  sim :: "string \<Rightarrow> json"
  rnd :: draws
  clock_iso :: string
  clock_tick :: nat
  raw_write :: write_outcome
  pickle_write :: write_outcome
  summary_write :: write_outcome

definition process_video ::
  "outside \<Rightarrow> video_process_request \<Rightarrow> engine \<Rightarrow> filesystem
     \<Rightarrow> discovery_response \<times> engine \<times> filesystem" where
  \<comment> \<open>every method that the handler calls catches its own exceptions, and
      \<^verbatim>\<open>discover_patterns\<close> puts a list under every key of the discovery, so the
      handler's \<^verbatim>\<open>except\<close> branch has no path to it here\<close>
  "process_video out request e fs =
     (let fts = extract_everything (sim out) (video_path request);
          fs1 = (if store_raw request
                 then snd (store_raw_features (raw_write out) (clock_tick out) (clock_iso out)
                             fs (video_number request) fts)
                 else fs);
          ds = discover_patterns (state e) (rnd out) fts (video_number request) True;
          (updated, st1) = update_intelligence (state e) ds (video_number request) (clock_iso out);
          e1 = e\<lparr>state := st1\<rparr>;
          (saved, fs2) = save_checkpoint (mean_of out) (pickle_write out) (summary_write out)
                           (clock_tick out) fs1 e1 (video_number request)
      in (\<lparr>rs_video_number = video_number request,
           features_extracted = length fts,
           rs_patterns_discovered = field_items (patterns ds),
           rs_correlations_found = field_items (correlations ds),
           rs_unknown_signals = field_items (unknown ds),
           intelligence_updated = updated,
           checkpoint_saved = saved\<rparr>, e1, fs2))"

subsection \<open>Ordering of the histories\<close>

text \<open>
  The ordering of the histories, as predicates on a dictionary and on the state:
  \<open>history_upto video b d\<close> says that every history of \<open>d\<close> is in ascending order
  of \<open>video\<close> and records no video above \<open>b\<close>.
\<close>

definition history_upto :: "('e \<Rightarrow> int) \<Rightarrow> int \<Rightarrow> (string, 'e list) dict \<Rightarrow> bool" where
  "history_upto video b d =
     list_all (\<lambda>(k, h). sorted (map video h) \<and> list_all (\<lambda>e. video e \<le> b) h) d"

definition history_ordered :: "intel_state \<Rightarrow> bool" where
  "history_ordered st =
     (list_all (\<lambda>(k, h). sorted (map se_video h)) (pattern_strengths st) \<and>
      list_all (\<lambda>(k, h). sorted (map ce_video h)) (correlation_matrix st))"

subsection \<open>Concrete inputs\<close>

text \<open>The states, discoveries and calls at which the properties below are evaluated.\<close>

definition call_a :: "discovery \<times> int \<times> string" where
  "call_a = (\<lparr>patterns = Listed [\<lparr>p_type = Some ''micro'', p_description = Some ''blink'',
                 p_strength = Some (9 / 10), p_confidence = None, p_occurrences = None\<rparr>],
               correlations = Listed [], unknown = Absent, meta_patterns = Absent\<rparr>, 0, ''t1'')"

definition untyped_pattern :: pattern where
  \<comment> \<open>a pattern record without the key \<^verbatim>\<open>type\<close>\<close>
  "untyped_pattern = \<lparr>p_type = None, p_description = Some ''blink'', p_strength = Some (9 / 10),
     p_confidence = None, p_occurrences = None\<rparr>"

definition untyped_discovery :: discovery where
  "untyped_discovery = \<lparr>patterns = Listed [untyped_pattern], correlations = Listed [],
     unknown = Listed [], meta_patterns = Listed []\<rparr>"

definition unsized_discovery :: discovery where
  \<comment> \<open>\<^verbatim>\<open>{'patterns': None, 'correlations': [c]}\<close>\<close>
  "unsized_discovery = \<lparr>patterns = Unsized,
     correlations = Listed [\<lparr>feature_a = Some ''brow'', feature_b = Some ''pitch'',
       correlation = Some (1 / 4), significance = None, lag = None\<rparr>],
     unknown = Absent, meta_patterns = Absent\<rparr>"

definition unsized_unknown_discovery :: discovery where
  \<comment> \<open>a discovery whose records are in order and whose key \<^verbatim>\<open>unknown\<close> holds
      \<^verbatim>\<open>None\<close>\<close>
  "unsized_unknown_discovery = \<lparr>patterns = Listed [\<lparr>p_type = Some ''micro'',
       p_description = Some ''blink'', p_strength = Some (9 / 10), p_confidence = None,
       p_occurrences = None\<rparr>],
     correlations = Listed [], unknown = Unsized, meta_patterns = Absent\<rparr>"

definition entry_a :: discovery_entry where
  "entry_a = \<lparr>de_video = 0, de_timestamp = ''t1'', patterns_found = 0,
     correlations_found = 0, unknown_signals = 0\<rparr>"

definition entry_b :: discovery_entry where
  "entry_b = \<lparr>de_video = 1, de_timestamp = ''t2'', patterns_found = 2,
     correlations_found = 1, unknown_signals = 0\<rparr>"

definition draws_a :: draws where
  "draws_a = \<lparr>micro_gate = 1 / 2, micro_strength = 9 / 10, micro_confidence = 1 / 2,
     micro_occurrences = 3, cross_gate = 1 / 2, cross_strength = 1 / 4,
     cross_confidence = 1 / 2, corr_value = 3 / 4, corr_significance = 1 / 2, corr_lag = - 2,
     meta_acceleration = 1 / 10, unknown_std = 2, unknown_kurtosis = 1 / 2\<rparr>"

definition scenario_state :: "real \<Rightarrow> real \<Rightarrow> real \<Rightarrow> real \<Rightarrow> intel_state" where
  \<comment> \<open>strengths \<open>A: [a]\<close>, \<open>B: [b1, b2]\<close>, \<open>C: [c, c]\<close>\<close>
  "scenario_state a b1 b2 c = (fresh_state ''t0'')\<lparr>pattern_strengths :=
     [(''A'', [\<lparr>se_video = 1, se_strength = a\<rparr>]),
      (''B'', [\<lparr>se_video = 1, se_strength = b1\<rparr>, \<lparr>se_video = 2, se_strength = b2\<rparr>]),
      (''C'', [\<lparr>se_video = 2, se_strength = c\<rparr>, \<lparr>se_video = 3, se_strength = c\<rparr>])]\<rparr>"

definition tie_state :: intel_state where
  "tie_state = (fresh_state ''t0'')\<lparr>pattern_strengths :=
     [(''b'', [\<lparr>se_video = 1, se_strength = 1 / 2\<rparr>]),
      (''a'', [\<lparr>se_video = 2, se_strength = 1 / 2\<rparr>, \<lparr>se_video = 3, se_strength = 1 / 2\<rparr>])]\<rparr>"

definition emergence_state :: intel_state where
  "emergence_state = (fresh_state ''t0'')\<lparr>videos_processed := 9, pattern_strengths :=
     [(''rise'', [\<lparr>se_video = 3, se_strength = 9 / 10\<rparr>, \<lparr>se_video = 7, se_strength = 1 / 10\<rparr>]),
      (''late'', [\<lparr>se_video = 4, se_strength = 1 / 2\<rparr>, \<lparr>se_video = 8, se_strength = 95 / 100\<rparr>])]\<rparr>"

definition call_b :: "discovery \<times> int \<times> string" where
  "call_b = (\<lparr>patterns = Listed [\<lparr>p_type = Some ''micro'', p_description = Some ''blink'',
                 p_strength = Some (1 / 2), p_confidence = None, p_occurrences = None\<rparr>],
               correlations = Listed [\<lparr>feature_a = Some ''brow'', feature_b = Some ''pitch'',
                 correlation = Some (1 / 4), significance = None, lag = None\<rparr>],
               unknown = Absent, meta_patterns = Absent\<rparr>, 1, ''t2'')"

definition engine_a :: engine where
  "engine_a = \<lparr>state = snd (update_all (fresh_state ''t0'') [call_a, call_b]), unknown_space = []\<rparr>"

definition fs_a :: filesystem where
  "fs_a = \<lparr>checkpoint_dir =
             [(''intelligence_v0000.pkl'', \<lparr>mtime = 5, content = Pickled (fresh_state ''t0'')\<rparr>),
              (''discoveries_v0000.json'', \<lparr>mtime = 5, content = Truncated\<rparr>)],
           discovery_dir = []\<rparr>"

definition outside_a :: outside where
  "outside_a = \<lparr>mean_of = exact_mean, sim = (\<lambda>modality. JList []), rnd = draws_a, clock_iso = ''t1'', clock_tick = 9,
     raw_write = Written, pickle_write = OpenFails, summary_write = Written\<rparr>"

definition request_a :: video_process_request where
  "request_a = \<lparr>video_path = ''v0.mp4'', video_number = 0, rq_extract_everything = True,
     store_raw = True, rq_discover_patterns = True\<rparr>"

definition engine_0 :: engine where
  "engine_0 = \<lparr>state = fresh_state ''t0'', unknown_space = []\<rparr>"



section \<open>Properties of the merge step\<close>

text \<open>Neither loop touches what the other one writes, nor the counters and the log.\<close>

lemma track_patterns_frame:
  "track_patterns st ps v = (st', r) \<Longrightarrow>
     videos_processed st' = videos_processed st \<and> total_patterns st' = total_patterns st \<and>
     total_correlations st' = total_correlations st \<and> discoveries st' = discoveries st \<and>
     correlation_matrix st' = correlation_matrix st \<and> creation_time st' = creation_time st \<and>
     unknown_space_used st' = unknown_space_used st \<and>
     state_meta_patterns st' = state_meta_patterns st \<and> last_checkpoint st' = last_checkpoint st"
proof (induction ps arbitrary: st)
  case Nil
  then show ?case by simp
next
  case (Cons p ps)
  from Cons.prems show ?case
    by (auto simp: Let_def split: option.splits if_splits dest!: Cons.IH)
qed

lemma track_correlations_frame:
  "track_correlations st cs v = (st', r) \<Longrightarrow>
     videos_processed st' = videos_processed st \<and> total_patterns st' = total_patterns st \<and>
     total_correlations st' = total_correlations st \<and> discoveries st' = discoveries st \<and>
     pattern_strengths st' = pattern_strengths st \<and> creation_time st' = creation_time st \<and>
     unknown_space_used st' = unknown_space_used st \<and>
     state_meta_patterns st' = state_meta_patterns st \<and> last_checkpoint st' = last_checkpoint st"
proof (induction cs arbitrary: st)
  case Nil
  then show ?case by simp
next
  case (Cons c cs)
  from Cons.prems show ?case
    by (auto simp: Let_def split: option.splits if_splits dest!: Cons.IH)
qed


text \<open>What the keys of a discovery give when they give anything.\<close>

lemma py_len_Inr: "py_len f = Inr n \<Longrightarrow> n = length (field_items f)"
  by (cases f) (simp_all add: py_len_def field_items_def)

lemma py_iter_Inr: "py_iter f = Inr xs \<Longrightarrow> xs = field_items f"
  by (cases f) (simp_all add: py_iter_def field_items_def)

text \<open>
  The course of the \<^verbatim>\<open>try\<close> block, wherever it stops: the counter is incremented,
  the totals are raised one after the other, the pattern loop runs on some list and the
  correlation loop on some list (the empty one when the block stopped before the loop),
  and only a block that raised nothing appends to the log.
\<close>

lemma update_body_shape:
  assumes "update_intelligence_body st d v now = (st', r)"
  obtains s3 ps s4 rp cs s5 rc where
    "videos_processed s3 = videos_processed st + 1"
    "discoveries s3 = discoveries st \<and> creation_time s3 = creation_time st \<and>
     unknown_space_used s3 = unknown_space_used st \<and>
     state_meta_patterns s3 = state_meta_patterns st \<and> last_checkpoint s3 = last_checkpoint st"
    "pattern_strengths s3 = pattern_strengths st \<and> correlation_matrix s3 = correlation_matrix st"
    "(total_patterns s3 = total_patterns st \<and> total_correlations s3 = total_correlations st) \<or>
     (total_patterns s3 = total_patterns st + int (length (field_items (patterns d))) \<and>
      (total_correlations s3 = total_correlations st \<or>
       total_correlations s3 =
         total_correlations st + int (length (field_items (correlations d)))))"
    "track_patterns s3 ps v = (s4, rp)"
    "track_correlations s4 cs v = (s5, rc)"
    "(r \<noteq> None \<and> st' = s5) \<or>
     (r = None \<and> (\<exists>entry. st' = s5\<lparr>discoveries := discoveries s5 @ [entry]\<rparr>))"
proof -
  let ?st1 = "st\<lparr>videos_processed := videos_processed st + 1\<rparr>"
  show thesis
  proof (cases "py_len (patterns d)")
    case (Inl e)
    with assms have "st' = ?st1" "r = Some e"
      by (simp_all add: update_intelligence_body_def Let_def)
    then show thesis
      by (intro that[of ?st1 "[]" ?st1 None "[]" ?st1 None]) simp_all
  next
    case np: (Inr n_patterns)
    let ?st2 = "?st1\<lparr>total_patterns := total_patterns ?st1 + int n_patterns\<rparr>"
    note lp = py_len_Inr[OF np]
    show thesis
    proof (cases "py_len (correlations d)")
      case (Inl e)
      with assms np have "st' = ?st2" "r = Some e"
        by (simp_all add: update_intelligence_body_def Let_def)
      then show thesis
        using lp by (intro that[of ?st2 "[]" ?st2 None "[]" ?st2 None]) simp_all
    next
      case nc: (Inr n_correlations)
      let ?st3 = "?st2\<lparr>total_correlations := total_correlations ?st2 + int n_correlations\<rparr>"
      note lc = py_len_Inr[OF nc]
      show thesis
      proof (cases "py_iter (patterns d)")
        case (Inl e)
        with assms np nc have "st' = ?st3" "r = Some e"
          by (simp_all add: update_intelligence_body_def Let_def)
        then show thesis
          using lp lc by (intro that[of ?st3 "[]" ?st3 None "[]" ?st3 None]) simp_all
      next
        case ip: (Inr ps)
        obtain st4 r4 where t4: "track_patterns ?st3 ps v = (st4, r4)"
          by (cases "track_patterns ?st3 ps v")
        show thesis
        proof (cases r4)
          case (Some e)
          with assms np nc ip t4 have "st' = st4" "r = Some e"
            by (simp_all add: update_intelligence_body_def Let_def)
          then show thesis
            using lp lc t4 by (intro that[of ?st3 ps st4 r4 "[]" st4 None]) simp_all
        next
          case r4: None
          show thesis
          proof (cases "py_iter (correlations d)")
            case (Inl e)
            with assms np nc ip t4 r4 have "st' = st4" "r = Some e"
              by (simp_all add: update_intelligence_body_def Let_def)
            then show thesis
              using lp lc t4 by (intro that[of ?st3 ps st4 r4 "[]" st4 None]) simp_all
          next
            case ic: (Inr cs)
            obtain st5 r5 where t5: "track_correlations st4 cs v = (st5, r5)"
              by (cases "track_correlations st4 cs v")
            show thesis
            proof (cases r5)
              case (Some e)
              with assms np nc ip t4 r4 ic t5 have "st' = st5" "r = Some e"
                by (simp_all add: update_intelligence_body_def Let_def)
              then show thesis
                using lp lc t4 t5 by (intro that[of ?st3 ps st4 r4 cs st5 r5]) simp_all
            next
              case r5: None
              show thesis
              proof (cases "py_len (unknown d)")
                case (Inl e)
                with assms np nc ip t4 r4 ic t5 r5 have "st' = st5" "r = Some e"
                  by (simp_all add: update_intelligence_body_def Let_def)
                then show thesis
                  using lp lc t4 t5 by (intro that[of ?st3 ps st4 r4 cs st5 r5]) simp_all
              next
                case (Inr n_unknown)
                with assms np nc ip t4 r4 ic t5 r5
                have "r = None" "\<exists>entry. st' = st5\<lparr>discoveries := discoveries st5 @ [entry]\<rparr>"
                  by (auto simp: update_intelligence_body_def Let_def)
                then show thesis
                  using lp lc t4 t5 by (intro that[of ?st3 ps st4 r4 cs st5 r5]) simp_all
              qed
            qed
          qed
        qed
      qed
    qed
  qed
qed

lemma update_body_success:
  assumes "update_intelligence_body st d v now = (st', None)"
  shows "videos_processed st' = videos_processed st + 1 \<and>
         length (discoveries st') = length (discoveries st) + 1"
proof -
  from assms obtain s3 ps s4 rp cs s5 rc where
    s3: "videos_processed s3 = videos_processed st + 1"
        "discoveries s3 = discoveries st \<and> creation_time s3 = creation_time st \<and>
         unknown_space_used s3 = unknown_space_used st \<and>
         state_meta_patterns s3 = state_meta_patterns st \<and> last_checkpoint s3 = last_checkpoint st"
    and t4: "track_patterns s3 ps v = (s4, rp)"
    and t5: "track_correlations s4 cs v = (s5, rc)"
    and st': "(None \<noteq> (None :: py_error option) \<and> st' = s5) \<or>
              (\<exists>entry. st' = s5\<lparr>discoveries := discoveries s5 @ [entry]\<rparr>)"
    by (rule update_body_shape) auto
  from st' obtain entry where "st' = s5\<lparr>discoveries := discoveries s5 @ [entry]\<rparr>" by auto
  with track_patterns_frame[OF t4] track_correlations_frame[OF t5] s3
  show ?thesis by simp
qed

lemma update_intelligence_success:
  "update_intelligence st d v now = (True, st') \<Longrightarrow>
     videos_processed st' = videos_processed st + 1 \<and>
     length (discoveries st') = length (discoveries st) + 1"
  by (auto simp: update_intelligence_def split: prod.splits option.splits dest: update_body_success)

text \<open>
  C1. Over every sequence of calls of \<^verbatim>\<open>update_intelligence\<close> that all return
  \<^verbatim>\<open>True\<close>, \<^verbatim>\<open>videos_processed\<close> grows by one per call and the discoveries log
  by one entry per call; so when the counter equals the length of the log before the
  calls, as in the fresh state, it equals it after each of them.
\<close>

theorem items_processed_counts_log:
  "update_all st calls = (oks, st') \<Longrightarrow> list_all (\<lambda>ok. ok) oks \<Longrightarrow>
     videos_processed st' = videos_processed st + int (length calls) \<and>
     length (discoveries st') = length (discoveries st) + length calls \<and>
     (videos_processed st = int (length (discoveries st)) \<longrightarrow>
      videos_processed st' = int (length (discoveries st')))"
proof (induction calls arbitrary: st oks st')
  case Nil
  then show ?case by simp
next
  case (Cons c calls)
  obtain d v now where c: "c = (d, v, now)" by (cases c)
  obtain ok st1 where u: "update_intelligence st d v now = (ok, st1)"
    by (cases "update_intelligence st d v now")
  obtain oks1 st2 where r: "update_all st1 calls = (oks1, st2)"
    by (cases "update_all st1 calls")
  from Cons.prems c u r have eq: "oks = ok # oks1" "st' = st2" by simp_all
  with Cons.prems(2) have ok: "ok" and oks1: "list_all (\<lambda>ok. ok) oks1" by simp_all
  from u ok have step: "videos_processed st1 = videos_processed st + 1"
      "length (discoveries st1) = length (discoveries st) + 1"
    using update_intelligence_success[of st d v now st1] by simp_all
  from Cons.IH[OF r oks1] step eq show ?case by simp
qed

theorem items_processed_counts_log_witness:
  "update_all (fresh_state ''t0'') [call_a, call_a] = ([True, True], snd (update_all (fresh_state ''t0'') [call_a, call_a]))
   \<and> videos_processed (snd (update_all (fresh_state ''t0'') [call_a, call_a])) = 2
   \<and> length (discoveries (snd (update_all (fresh_state ''t0'') [call_a, call_a]))) = 2"
proof -
  have run: "fst (update_all (fresh_state ''t0'') [call_a, call_a]) = [True, True]"
    by (simp add: call_a_def fresh_state_def update_intelligence_def update_intelligence_body_def
        py_len_def py_iter_def get_or_def pattern_id_def dict_contains_def dict_get_def Let_def)
  then have e: "update_all (fresh_state ''t0'') [call_a, call_a]
      = ([True, True], snd (update_all (fresh_state ''t0'') [call_a, call_a]))"
    by (simp add: prod_eq_iff)
  from items_processed_counts_log[OF e] show ?thesis
    using e by (simp add: fresh_state_def)
qed


section \<open>Properties of the queries\<close>

text \<open>
  C10. With limit zero, \<^verbatim>\<open>get_recent_discoveries\<close> returns the whole discoveries log
  when the log is not empty, and the empty list when it is empty.
\<close>

theorem recent_discoveries_zero_is_all:
  "(discoveries st \<noteq> [] \<longrightarrow> get_recent_discoveries st 0 = discoveries st) \<and>
   (discoveries st = [] \<longrightarrow> get_recent_discoveries st 0 = [])"
  by (simp add: get_recent_discoveries_def py_slice_from_def)

theorem recent_discoveries_zero_is_all_witness:
  "discoveries ((fresh_state ''t0'')\<lparr>discoveries := [entry_a, entry_b]\<rparr>) \<noteq> [] \<and>
   get_recent_discoveries ((fresh_state ''t0'')\<lparr>discoveries := [entry_a, entry_b]\<rparr>) 0
     = [entry_a, entry_b] \<and>
   get_recent_discoveries (fresh_state ''t0'') 0 = []"
  using recent_discoveries_zero_is_all[of "(fresh_state ''t0'')\<lparr>discoveries := [entry_a, entry_b]\<rparr>"]
    recent_discoveries_zero_is_all[of "fresh_state ''t0''"]
  by (simp add: fresh_state_def)

text \<open>For a positive limit the query is the last \<open>limit\<close> entries, oldest first.\<close>

lemma recent_discoveries_positive:
  "0 < limit \<Longrightarrow>
     get_recent_discoveries st limit
       = drop (length (discoveries st) - nat limit) (discoveries st)"
  by (simp add: get_recent_discoveries_def py_slice_from_def)

text \<open>
  C9 at limit zero: on a log of two entries the query returns both, where the last zero
  entries of the log are none.
\<close>

theorem recent_discoveries_limit_zero:
  "get_recent_discoveries ((fresh_state ''t0'')\<lparr>discoveries := [entry_a, entry_b]\<rparr>) 0
     = [entry_a, entry_b] \<and>
   drop (length [entry_a, entry_b] - nat 0) [entry_a, entry_b] = []"
  by (simp add: get_recent_discoveries_def py_slice_from_def fresh_state_def)

section \<open>Properties of discovery\<close>

text \<open>
  C8. \<^verbatim>\<open>discover_patterns\<close> returns pattern or correlation records only when
  \<^verbatim>\<open>videos_processed\<close> is positive and meta-pattern records only when it exceeds
  ten, and its unknown signals are those of \<^verbatim>\<open>_explore_unknown_space\<close> on every
  call. With the previous intelligence in use, a positive count gives the patterns found
  and exactly one correlation, and a count above ten exactly one meta-pattern.
\<close>

theorem discovery_gating:
  "(field_items (patterns (discover_patterns st r fs v u)) \<noteq> [] \<longrightarrow> 0 < videos_processed st) \<and>
   (field_items (correlations (discover_patterns st r fs v u)) \<noteq> [] \<longrightarrow> 0 < videos_processed st) \<and>
   (field_items (meta_patterns (discover_patterns st r fs v u)) \<noteq> [] \<longrightarrow> 10 < videos_processed st) \<and>
   unknown (discover_patterns st r fs v u) = Listed (explore_unknown_space r fs) \<and>
   (u \<and> 0 < videos_processed st \<longrightarrow>
      patterns (discover_patterns st r fs v u) = Listed (find_emergent_patterns r fs) \<and>
      correlations (discover_patterns st r fs v u) = Listed (discover_correlations r fs) \<and>
      length (discover_correlations r fs) = 1) \<and>
   (u \<and> 10 < videos_processed st \<longrightarrow>
      length (field_items (meta_patterns (discover_patterns st r fs v u))) = 1)"
  by (simp add: discover_patterns_def field_items_def find_meta_patterns_def discover_correlations_def Let_def)

theorem discovery_gating_witness:
  "0 < videos_processed ((fresh_state ''t0'')\<lparr>videos_processed := 11\<rparr>) \<and>
   length (field_items (patterns (discover_patterns ((fresh_state ''t0'')\<lparr>videos_processed := 11\<rparr>)
             draws_a [] 11 True))) = 2 \<and>
   length (field_items (meta_patterns (discover_patterns ((fresh_state ''t0'')\<lparr>videos_processed := 11\<rparr>)
             draws_a [] 11 True))) = 1 \<and>
   field_items (patterns (discover_patterns (fresh_state ''t0'') draws_a [] 0 True)) = [] \<and>
   unknown (discover_patterns (fresh_state ''t0'') draws_a [] 0 True)
     = Listed (explore_unknown_space draws_a [])"
  using discovery_gating[of "(fresh_state ''t0'')\<lparr>videos_processed := 11\<rparr>" draws_a "[]" 11 True]
    discovery_gating[of "fresh_state ''t0''" draws_a "[]" 0 True]
  by (simp add: fresh_state_def find_emergent_patterns_def draws_a_def discover_patterns_def
      field_items_def find_meta_patterns_def Let_def)


section \<open>Properties of the ranking and of emergence\<close>

text \<open>The descending sort of Python: ordered by key, a permutation, and stable.\<close>

lemma py_sort_reverse_sorted:
  "sorted_wrt (\<lambda>x y. f y \<le> f x) (py_sort_reverse f xs)"
proof -
  have "sorted (map f (sort_key f (rev xs)))" by simp
  then have "sorted_wrt (\<lambda>x y. f x \<le> f y) (sort_key f (rev xs))"
    by (simp add: sorted_map)
  then show ?thesis
    unfolding py_sort_reverse_def by (simp add: sorted_wrt_rev)
qed

lemma py_sort_reverse_stable:
  "filter (\<lambda>x. f x = m) (py_sort_reverse f xs) = filter (\<lambda>x. f x = m) xs"
proof -
  have "filter (\<lambda>x. f x = m) (rev (sort_key f (rev xs)))
        = rev (filter (\<lambda>x. f x = m) (sort_key f (rev xs)))"
    by (simp add: rev_filter)
  also have "\<dots> = rev (filter (\<lambda>x. f x = m) (rev xs))"
    by (simp add: sort_key_stable)
  also have "\<dots> = filter (\<lambda>x. f x = m) xs"
    by (simp add: rev_filter)
  finally show ?thesis by (simp add: py_sort_reverse_def)
qed

lemma py_sort_reverse_mset: "mset (py_sort_reverse f xs) = mset xs"
  by (simp add: py_sort_reverse_def)

lemma patterns_with_strength_map:
  "patterns_with_strength np_mean d =
     map (\<lambda>(pid, h). \<lparr>rp_pattern = pid,
            average_strength = np_mean (map se_strength h),
            rp_occurrences = length h,
            first_seen = se_video (hd h), last_seen = se_video (last h)\<rparr>)
       (filter (\<lambda>(pid, h). h \<noteq> []) d)"
  by (induction np_mean d rule: patterns_with_strength.induct) simp_all

lemma py_slice_to_take: "\<exists>n. py_slice_to xs i = take n xs"
  by (auto simp: py_slice_to_def)

text \<open>
  The scenario of the specification, for every mean that returns the one element of a
  singleton and a value between the two elements of a pair, as the rounded mean does: the
  sum of two floats lies between the doubles of the smaller and of the larger, and halving
  is exact.
\<close>

lemma scenario_eval:
  assumes one: "\<forall>x. np_mean [x] = x"
    and two: "\<forall>x y. min x y \<le> np_mean [x, y] \<and> np_mean [x, y] \<le> max x y"
    and order: "b1 < a" "b2 < a" "a < c"
  shows "get_top_patterns np_mean (scenario_state a b1 b2 c) 2 =
     [\<lparr>rp_pattern = ''C'', average_strength = c, rp_occurrences = 2, first_seen = 2, last_seen = 3\<rparr>,
      \<lparr>rp_pattern = ''A'', average_strength = a, rp_occurrences = 1, first_seen = 1, last_seen = 1\<rparr>]"
proof -
  from two have "min c c \<le> np_mean [c, c]" "np_mean [c, c] \<le> max c c" by blast+
  then have c: "np_mean [c, c] = c" by simp
  from one have a: "np_mean [a] = a" by blast
  from two have "np_mean [b1, b2] \<le> max b1 b2" by blast
  with order have b: "np_mean [b1, b2] < a" by (simp add: max_def split: if_splits)
  from b order have n: "\<not> c \<le> np_mean [b1, b2]" "\<not> c \<le> a" "np_mean [b1, b2] \<le> a"
    by simp_all
  show ?thesis
    by (simp add: get_top_patterns_def sorted_patterns_def py_sort_reverse_def py_slice_to_def
        scenario_state_def fresh_state_def a c n)
qed

lemma exact_mean_one: "exact_mean [x] = x"
  by (simp add: exact_mean_def)

lemma exact_mean_two: "min x y \<le> exact_mean [x, y] \<and> exact_mean [x, y] \<le> max x y"
  by (simp add: exact_mean_def min_def max_def field_simps)

text \<open>
  C3 as stated fails on the tie-break: with \<open>b: [0.5]\<close> inserted before
  \<open>a: [0.5, 0.5]\<close> the means are equal (the sum \<open>1.0\<close> and its half are exact, so
  the mean is the exact one), \<open>a\<close> has more occurrences and the smaller key, and the
  code still returns \<open>b\<close> first.
\<close>

theorem ranking_tie_break_counterexample:
  "\<not> sorted_wrt spec_ranked_before (get_top_patterns exact_mean tie_state 2)"
  by (simp add: get_top_patterns_def sorted_patterns_def py_sort_reverse_def py_slice_to_def
      tie_state_def fresh_state_def exact_mean_def spec_ranked_before_def)

text \<open>
  C3, as the code has it. \<^verbatim>\<open>_get_top_patterns\<close> gives every key with a recorded
  history its \<^verbatim>\<open>average_strength\<close>, the mean of all its recorded strengths as
  \<^verbatim>\<open>np.mean\<close> computes it, and sorts the keys by descending
  \<^verbatim>\<open>average_strength\<close> with a stable sort: keys of equal \<^verbatim>\<open>average_strength\<close>
  stay in the insertion order of \<^verbatim>\<open>pattern_strengths\<close>, and neither the occurrence
  count nor the key breaks a tie. The slice \<^verbatim>\<open>[:limit]\<close> keeps the first \<open>limit\<close>
  of them, and all but the last \<open>- limit\<close> for a negative limit. With strengths
  \<open>A: [0.9]\<close>, \<open>B: [0.5, 0.7]\<close>, \<open>C: [0.95, 0.95]\<close>, and with any strengths in that
  order, limit two gives \<open>C\<close>, then \<open>A\<close>, each with its own strength as mean.
\<close>

theorem top_patterns_by_mean_stable:
  "(0 \<le> limit \<longrightarrow>
      get_top_patterns np_mean st limit = take (nat limit) (sorted_patterns np_mean st)) \<and>
   (limit < 0 \<longrightarrow>
      get_top_patterns np_mean st limit =
        take (length (sorted_patterns np_mean st) - nat (- limit)) (sorted_patterns np_mean st)) \<and>
   sorted_wrt (\<lambda>x y. average_strength y \<le> average_strength x) (get_top_patterns np_mean st limit) \<and>
   sorted_wrt (\<lambda>x y. average_strength y \<le> average_strength x) (sorted_patterns np_mean st) \<and>
   mset (sorted_patterns np_mean st) = mset (patterns_with_strength np_mean (pattern_strengths st)) \<and>
   (\<forall>m. filter (\<lambda>x. average_strength x = m) (sorted_patterns np_mean st)
        = filter (\<lambda>x. average_strength x = m)
            (patterns_with_strength np_mean (pattern_strengths st))) \<and>
   patterns_with_strength np_mean (pattern_strengths st) =
     map (\<lambda>(pid, h). \<lparr>rp_pattern = pid,
            average_strength = np_mean (map se_strength h),
            rp_occurrences = length h,
            first_seen = se_video (hd h), last_seen = se_video (last h)\<rparr>)
       (filter (\<lambda>(pid, h). h \<noteq> []) (pattern_strengths st)) \<and>
   ((\<forall>x. np_mean [x] = x) \<and>
    (\<forall>x y. min x y \<le> np_mean [x, y] \<and> np_mean [x, y] \<le> max x y) \<and>
    b1 < a \<and> b2 < a \<and> a < c \<longrightarrow>
      map rp_pattern (get_top_patterns np_mean (scenario_state a b1 b2 c) 2) = [''C'', ''A''] \<and>
      map average_strength (get_top_patterns np_mean (scenario_state a b1 b2 c) 2) = [c, a])"
proof -
  let ?all = "sorted_patterns np_mean st"
  have s: "sorted_wrt (\<lambda>x y. average_strength y \<le> average_strength x) ?all"
    unfolding sorted_patterns_def by (rule py_sort_reverse_sorted)
  obtain n where n: "get_top_patterns np_mean st limit = take n ?all"
    unfolding get_top_patterns_def using py_slice_to_take by blast
  have t: "sorted_wrt (\<lambda>x y. average_strength y \<le> average_strength x)
             (get_top_patterns np_mean st limit)"
    unfolding n using s by (rule sorted_wrt_take)
  have l: "0 \<le> limit \<longrightarrow> get_top_patterns np_mean st limit = take (nat limit) ?all"
    by (simp add: get_top_patterns_def py_slice_to_def)
  have l': "limit < 0 \<longrightarrow>
      get_top_patterns np_mean st limit = take (length ?all - nat (- limit)) ?all"
    by (simp add: get_top_patterns_def py_slice_to_def)
  have m: "mset ?all = mset (patterns_with_strength np_mean (pattern_strengths st))"
    unfolding sorted_patterns_def by (rule py_sort_reverse_mset)
  have f: "\<forall>m. filter (\<lambda>x. average_strength x = m) ?all
        = filter (\<lambda>x. average_strength x = m)
            (patterns_with_strength np_mean (pattern_strengths st))"
    unfolding sorted_patterns_def by (simp add: py_sort_reverse_stable)
  have e: "(\<forall>x. np_mean [x] = x) \<and>
    (\<forall>x y. min x y \<le> np_mean [x, y] \<and> np_mean [x, y] \<le> max x y) \<and>
    b1 < a \<and> b2 < a \<and> a < c \<longrightarrow>
      map rp_pattern (get_top_patterns np_mean (scenario_state a b1 b2 c) 2) = [''C'', ''A''] \<and>
      map average_strength (get_top_patterns np_mean (scenario_state a b1 b2 c) 2) = [c, a]"
  proof
    assume h: "(\<forall>x. np_mean [x] = x) \<and>
      (\<forall>x y. min x y \<le> np_mean [x, y] \<and> np_mean [x, y] \<le> max x y) \<and>
      b1 < a \<and> b2 < a \<and> a < c"
    then have "get_top_patterns np_mean (scenario_state a b1 b2 c) 2 =
       [\<lparr>rp_pattern = ''C'', average_strength = c, rp_occurrences = 2, first_seen = 2, last_seen = 3\<rparr>,
        \<lparr>rp_pattern = ''A'', average_strength = a, rp_occurrences = 1, first_seen = 1, last_seen = 1\<rparr>]"
      by (intro scenario_eval) blast+
    then show "map rp_pattern (get_top_patterns np_mean (scenario_state a b1 b2 c) 2) = [''C'', ''A''] \<and>
      map average_strength (get_top_patterns np_mean (scenario_state a b1 b2 c) 2) = [c, a]"
      by simp
  qed
  from l l' t s m f e patterns_with_strength_map[of np_mean "pattern_strengths st"] show ?thesis
    by blast
qed

theorem top_patterns_by_mean_stable_witness:
  "(0::int) \<le> 2 \<and>
   get_top_patterns exact_mean tie_state 2 = take 2 (sorted_patterns exact_mean tie_state) \<and>
   map rp_pattern (sorted_patterns exact_mean tie_state) = [''b'', ''a''] \<and>
   map average_strength (sorted_patterns exact_mean tie_state) = [1 / 2, 1 / 2] \<and>
   map rp_occurrences (sorted_patterns exact_mean tie_state) = [1, 2] \<and>
   (5 / 10 :: real) < 9 / 10 \<and> (7 / 10 :: real) < 9 / 10 \<and> (9 / 10 :: real) < 95 / 100 \<and>
   map rp_pattern
     (get_top_patterns exact_mean (scenario_state (9 / 10) (5 / 10) (7 / 10) (95 / 100)) 2)
     = [''C'', ''A''] \<and>
   map average_strength
     (get_top_patterns exact_mean (scenario_state (9 / 10) (5 / 10) (7 / 10) (95 / 100)) 2)
     = [95 / 100, 9 / 10]"
proof -
  have t: "map rp_pattern (sorted_patterns exact_mean tie_state) = [''b'', ''a''] \<and>
     map average_strength (sorted_patterns exact_mean tie_state) = [1 / 2, 1 / 2] \<and>
     map rp_occurrences (sorted_patterns exact_mean tie_state) = [1, 2]"
    by (simp add: sorted_patterns_def py_sort_reverse_def tie_state_def fresh_state_def
        exact_mean_def)
  have o: "(5 / 10 :: real) < 9 / 10 \<and> (7 / 10 :: real) < 9 / 10 \<and> (9 / 10 :: real) < 95 / 100"
    by simp
  have h: "(\<forall>x. exact_mean [x] = x) \<and>
      (\<forall>x y. min x y \<le> exact_mean [x, y] \<and> exact_mean [x, y] \<le> max x y)"
    using exact_mean_one exact_mean_two by blast
  from top_patterns_by_mean_stable[of 2 exact_mean tie_state "5 / 10" "9 / 10" "7 / 10" "95 / 100"]
  have "get_top_patterns exact_mean tie_state 2 = take 2 (sorted_patterns exact_mean tie_state)"
    and "map rp_pattern
       (get_top_patterns exact_mean (scenario_state (9 / 10) (5 / 10) (7 / 10) (95 / 100)) 2)
       = [''C'', ''A''] \<and>
     map average_strength
       (get_top_patterns exact_mean (scenario_state (9 / 10) (5 / 10) (7 / 10) (95 / 100)) 2)
       = [95 / 100, 9 / 10]"
    using h o by simp_all
  with t o show ?thesis by simp
qed

text \<open>The emergence loop, as a filter over the dictionary in its order.\<close>

lemma emergence_events_map:
  "emergence_events d =
     map (\<lambda>(pid, h). \<lparr>ev_video = se_video (hd h), ev_pattern = pid,
                        initial_strength = se_strength (hd h)\<rparr>)
       (filter (\<lambda>(pid, h). h \<noteq> [] \<and> 8 / 10 < se_strength (hd h)) d)"
  by (induction d rule: emergence_events.induct) simp_all

lemma emergence_events_member:
  "e \<in> set (emergence_events d) \<longleftrightarrow>
     (\<exists>pid first rest. (pid, first # rest) \<in> set d \<and> 8 / 10 < se_strength first \<and>
        e = \<lparr>ev_video = se_video first, ev_pattern = pid, initial_strength = se_strength first\<rparr>)"
proof
  assume "e \<in> set (emergence_events d)"
  then obtain pid h where m: "(pid, h) \<in> set d" "h \<noteq> []" "8 / 10 < se_strength (hd h)"
    and e: "e = \<lparr>ev_video = se_video (hd h), ev_pattern = pid, initial_strength = se_strength (hd h)\<rparr>"
    unfolding emergence_events_map by auto
  from m(2) obtain first rest where "h = first # rest" by (cases h) auto
  with m e show "\<exists>pid first rest. (pid, first # rest) \<in> set d \<and> 8 / 10 < se_strength first \<and>
        e = \<lparr>ev_video = se_video first, ev_pattern = pid, initial_strength = se_strength first\<rparr>"
    by auto
next
  assume "\<exists>pid first rest. (pid, first # rest) \<in> set d \<and> 8 / 10 < se_strength first \<and>
        e = \<lparr>ev_video = se_video first, ev_pattern = pid, initial_strength = se_strength first\<rparr>"
  then obtain pid first rest where m: "(pid, first # rest) \<in> set d" "8 / 10 < se_strength first"
    and e: "e = \<lparr>ev_video = se_video first, ev_pattern = pid, initial_strength = se_strength first\<rparr>"
    by blast
  from m have "(pid, first # rest) \<in> set (filter (\<lambda>(pid, h). h \<noteq> [] \<and> 8 / 10 < se_strength (hd h)) d)"
    by simp
  then have "(\<lambda>(pid, h). \<lparr>ev_video = se_video (hd h), ev_pattern = pid,
                        initial_strength = se_strength (hd h)\<rparr>) (pid, first # rest)
             \<in> set (emergence_events d)"
    unfolding emergence_events_map set_map by (rule imageI)
  with e show "e \<in> set (emergence_events d)" by simp
qed

text \<open>
  C4. A key is the pattern of an emergence event exactly when its history in
  \<^verbatim>\<open>pattern_strengths\<close> is not empty and the first recorded strength exceeds
  \<open>0.8\<close>; and every event carries the video index and the strength of the first entry
  of its key's history. The analysis takes no call index.
\<close>

theorem emergence_first_strength:
  "(k \<in> set (map ev_pattern (es_emergence_events (get_pattern_evolution_summary st)))
      \<longleftrightarrow> (\<exists>first rest. (k, first # rest) \<in> set (pattern_strengths st) \<and> 8 / 10 < se_strength first)) \<and>
   (\<forall>e \<in> set (es_emergence_events (get_pattern_evolution_summary st)).
      \<exists>first rest. (ev_pattern e, first # rest) \<in> set (pattern_strengths st) \<and>
        8 / 10 < se_strength first \<and>
        ev_video e = se_video first \<and> initial_strength e = se_strength first)"
proof -
  let ?d = "pattern_strengths st"
  have ev: "es_emergence_events (get_pattern_evolution_summary st) = emergence_events ?d"
    by (simp add: get_pattern_evolution_summary_def)
  have 1: "k \<in> set (map ev_pattern (emergence_events ?d))
      \<longleftrightarrow> (\<exists>first rest. (k, first # rest) \<in> set ?d \<and> 8 / 10 < se_strength first)"
  proof
    assume "k \<in> set (map ev_pattern (emergence_events ?d))"
    then obtain e where e: "e \<in> set (emergence_events ?d)" "ev_pattern e = k" by auto
    from e(1) obtain pid first rest where m: "(pid, first # rest) \<in> set ?d"
        "8 / 10 < se_strength first"
        "e = \<lparr>ev_video = se_video first, ev_pattern = pid, initial_strength = se_strength first\<rparr>"
      using emergence_events_member[of e ?d] by blast
    from m(3) e(2) have "pid = k" by simp
    with m show "\<exists>first rest. (k, first # rest) \<in> set ?d \<and> 8 / 10 < se_strength first"
      by blast
  next
    assume "\<exists>first rest. (k, first # rest) \<in> set ?d \<and> 8 / 10 < se_strength first"
    then obtain first rest where "(k, first # rest) \<in> set ?d" "8 / 10 < se_strength first"
      by blast
    then have "\<lparr>ev_video = se_video first, ev_pattern = k, initial_strength = se_strength first\<rparr>
        \<in> set (emergence_events ?d)"
      unfolding emergence_events_member by blast
    then have "ev_pattern \<lparr>ev_video = se_video first, ev_pattern = k, initial_strength = se_strength first\<rparr>
        \<in> set (map ev_pattern (emergence_events ?d))"
      unfolding set_map by (rule imageI)
    then show "k \<in> set (map ev_pattern (emergence_events ?d))" by simp
  qed
  have 2: "\<forall>e \<in> set (emergence_events ?d).
      \<exists>first rest. (ev_pattern e, first # rest) \<in> set ?d \<and>
        8 / 10 < se_strength first \<and>
        ev_video e = se_video first \<and> initial_strength e = se_strength first"
  proof
    fix e assume "e \<in> set (emergence_events ?d)"
    then obtain pid first rest where m: "(pid, first # rest) \<in> set ?d"
        "8 / 10 < se_strength first"
        "e = \<lparr>ev_video = se_video first, ev_pattern = pid, initial_strength = se_strength first\<rparr>"
      using emergence_events_member[of e ?d] by blast
    from m(3) have "ev_pattern e = pid" "ev_video e = se_video first"
        "initial_strength e = se_strength first" by simp_all
    with m(1,2) show "\<exists>first rest. (ev_pattern e, first # rest) \<in> set ?d \<and>
        8 / 10 < se_strength first \<and>
        ev_video e = se_video first \<and> initial_strength e = se_strength first"
      by blast
  qed
  from 1 2 show ?thesis unfolding ev by blast
qed

theorem emergence_first_strength_witness:
  "es_emergence_events (get_pattern_evolution_summary emergence_state)
     = [\<lparr>ev_video = 3, ev_pattern = ''rise'', initial_strength = 9 / 10\<rparr>] \<and>
   ''rise'' \<in> set (map ev_pattern (es_emergence_events (get_pattern_evolution_summary emergence_state))) \<and>
   ''late'' \<notin> set (map ev_pattern (es_emergence_events (get_pattern_evolution_summary emergence_state)))"
  using emergence_first_strength[of "''rise''" emergence_state]
    emergence_first_strength[of "''late''" emergence_state]
  by (simp add: get_pattern_evolution_summary_def emergence_state_def fresh_state_def)


section \<open>Properties of the histories\<close>

text \<open>Reading and writing a dictionary.\<close>

lemma dict_get_dict_set:
  "dict_get (dict_set d k x) k' = (if k' = k then Some x else dict_get d k')"
  by (induction d) (auto simp: dict_get_def)

lemma dict_set_member:
  "(k', x') \<in> set (dict_set d k x) \<Longrightarrow> (k', x') = (k, x) \<or> (k', x') \<in> set d"
  by (induction d) (auto split: if_splits)

lemma dict_get_member: "dict_get d k = Some x \<Longrightarrow> (k, x) \<in> set d"
  by (simp add: dict_get_def map_of_SomeD)

lemma dict_contains_get: "dict_contains d k \<longleftrightarrow> dict_get d k \<noteq> None"
  by (simp add: dict_contains_def dict_get_def map_of_eq_None_iff)

lemma dict_get_setdefault:
  "\<exists>h. dict_get (if \<not> dict_contains d k then dict_set d k [] else d) k = Some h"
  by (cases "dict_contains d k") (auto simp: dict_get_dict_set dict_contains_get)

text \<open>
  The invariant of the loops: every history is in ascending video order and holds no
  video beyond the bound. A call with a video at or above the bound keeps it.
\<close>

lemma history_upto_mono: "history_upto f b d \<Longrightarrow> b \<le> b' \<Longrightarrow> history_upto f b' d"
  by (fastforce simp: history_upto_def list_all_iff)

lemma history_upto_append:
  assumes d: "history_upto f b d"
    and h: "dict_get (if \<not> dict_contains d k then dict_set d k [] else d) k = Some h"
    and e: "f e = b"
  shows "history_upto f b (dict_set (if \<not> dict_contains d k then dict_set d k [] else d) k (h @ [e]))"
proof -
  let ?d1 = "if \<not> dict_contains d k then dict_set d k [] else d"
  have d1: "history_upto f b ?d1"
    using d by (auto simp: history_upto_def list_all_iff dest!: dict_set_member)
  from dict_get_member[OF h] d1 have hh: "sorted (map f h)" "\<forall>x \<in> set h. f x \<le> b"
    by (auto simp: history_upto_def list_all_iff)
  then have new: "sorted (map f (h @ [e]))" "\<forall>x \<in> set (h @ [e]). f x \<le> b"
    using e by (auto simp: sorted_append)
  show ?thesis
    unfolding history_upto_def list_all_iff
  proof (intro ballI)
    fix kh assume m: "kh \<in> set (dict_set ?d1 k (h @ [e]))"
    obtain k' h' where kh: "kh = (k', h')" by (cases kh)
    from m kh dict_set_member[of k' h' ?d1 k "h @ [e]"]
    have "(k', h') = (k, h @ [e]) \<or> (k', h') \<in> set ?d1" by simp
    then show "case kh of (k, h) \<Rightarrow> sorted (map f h) \<and> (\<forall>e\<in>set h. f e \<le> b)"
    proof
      assume "(k', h') = (k, h @ [e])"
      with new kh show ?thesis by simp
    next
      assume "(k', h') \<in> set ?d1"
      with d1 kh show ?thesis by (auto simp: history_upto_def list_all_iff)
    qed
  qed
qed

lemma track_patterns_history:
  "track_patterns st ps v = (st', r) \<Longrightarrow> history_upto se_video v (pattern_strengths st) \<Longrightarrow>
     history_upto se_video v (pattern_strengths st')"
proof (induction ps arbitrary: st)
  case Nil
  then show ?case by simp
next
  case (Cons p ps)
  show ?case
  proof (cases "p_type p")
    case None
    with Cons.prems show ?thesis by simp
  next
    case (Some t)
    let ?d = "pattern_strengths st"
    let ?k = "pattern_id t p"
    let ?d1 = "if \<not> dict_contains ?d ?k then dict_set ?d ?k [] else ?d"
    let ?e = "\<lparr>se_video = v, se_strength = get_or (p_strength p) 0\<rparr>"
    from dict_get_setdefault[of ?d ?k]
    obtain h where h: "dict_get ?d1 ?k = Some h" by blast
    have "history_upto se_video v (dict_set ?d1 ?k (h @ [?e]))"
      by (rule history_upto_append[OF Cons.prems(2) h]) simp
    moreover from Cons.prems(1) Some h
    have "track_patterns (st\<lparr>pattern_strengths := dict_set ?d1 ?k (h @ [?e])\<rparr>) ps v = (st', r)"
      by (auto simp: Let_def split: if_splits)
    ultimately show ?thesis
      using Cons.IH[of "st\<lparr>pattern_strengths := dict_set ?d1 ?k (h @ [?e])\<rparr>"] by simp
  qed
qed

lemma track_correlations_history:
  "track_correlations st cs v = (st', r) \<Longrightarrow> history_upto ce_video v (correlation_matrix st) \<Longrightarrow>
     history_upto ce_video v (correlation_matrix st')"
proof (induction cs arbitrary: st)
  case Nil
  then show ?case by simp
next
  case (Cons c cs)
  show ?case
  proof (cases "feature_a c")
    case None
    with Cons.prems show ?thesis by simp
  next
    case a: (Some a)
    show ?thesis
    proof (cases "feature_b c")
      case None
      with a Cons.prems show ?thesis by simp
    next
      case b: (Some b)
      let ?d = "correlation_matrix st"
      let ?k = "a @ ''_'' @ b"
      let ?d1 = "if \<not> dict_contains ?d ?k then dict_set ?d ?k [] else ?d"
      from dict_get_setdefault[of ?d ?k]
      obtain h where h: "dict_get ?d1 ?k = Some h" by blast
      have d1: "history_upto ce_video v ?d1"
        using Cons.prems(2) by (auto simp: history_upto_def list_all_iff dest!: dict_set_member)
      show ?thesis
      proof (cases "correlation c")
        case None
        with Cons.prems(1) a b h have "st' = st\<lparr>correlation_matrix := ?d1\<rparr>"
          by (auto simp: Let_def split: if_splits)
        with d1 show ?thesis by simp
      next
        case (Some x)
        let ?e = "\<lparr>ce_video = v, ce_value = x\<rparr>"
        have "history_upto ce_video v (dict_set ?d1 ?k (h @ [?e]))"
          by (rule history_upto_append[OF Cons.prems(2) h]) simp
        moreover from Cons.prems(1) a b Some h
        have "track_correlations (st\<lparr>correlation_matrix := dict_set ?d1 ?k (h @ [?e])\<rparr>) cs v = (st', r)"
          by (auto simp: Let_def split: if_splits)
        ultimately show ?thesis
          using Cons.IH[of "st\<lparr>correlation_matrix := dict_set ?d1 ?k (h @ [?e])\<rparr>"] by simp
      qed
    qed
  qed
qed

lemma update_intelligence_history:
  assumes u: "update_intelligence st d v now = (ok, st')"
    and p: "history_upto se_video v (pattern_strengths st)"
    and c: "history_upto ce_video v (correlation_matrix st)"
  shows "history_upto se_video v (pattern_strengths st') \<and>
         history_upto ce_video v (correlation_matrix st')"
proof -
  from u obtain r where "update_intelligence_body st d v now = (st', r)"
    by (cases "update_intelligence_body st d v now")
       (auto simp: update_intelligence_def split: option.splits)
  then obtain s3 ps s4 rp cs s5 rc where
    s3: "pattern_strengths s3 = pattern_strengths st \<and> correlation_matrix s3 = correlation_matrix st"
    and t4: "track_patterns s3 ps v = (s4, rp)"
    and t5: "track_correlations s4 cs v = (s5, rc)"
    and st': "(r \<noteq> None \<and> st' = s5) \<or>
              (r = None \<and> (\<exists>entry. st' = s5\<lparr>discoveries := discoveries s5 @ [entry]\<rparr>))"
    by (rule update_body_shape)
  from p s3 have p4: "history_upto se_video v (pattern_strengths s4)"
    using track_patterns_history[OF t4] by simp
  from track_patterns_frame[OF t4] c s3 have c4: "history_upto ce_video v (correlation_matrix s4)"
    by simp
  from c4 have c5: "history_upto ce_video v (correlation_matrix s5)"
    using track_correlations_history[OF t5] by simp
  from track_correlations_frame[OF t5] p4 have p5: "history_upto se_video v (pattern_strengths s5)"
    by simp
  from st' p5 c5 show ?thesis by auto
qed

text \<open>A history is only ever extended at its end.\<close>

lemma track_patterns_appends:
  "track_patterns st ps v = (st', r) \<Longrightarrow> dict_get (pattern_strengths st) k = Some h \<Longrightarrow>
     \<exists>new. dict_get (pattern_strengths st') k = Some (h @ new)"
proof (induction ps arbitrary: st h)
  case Nil
  then show ?case by simp
next
  case (Cons p ps)
  show ?case
  proof (cases "p_type p")
    case None
    with Cons.prems show ?thesis by simp
  next
    case (Some t)
    let ?d = "pattern_strengths st"
    let ?k = "pattern_id t p"
    let ?d1 = "if \<not> dict_contains ?d ?k then dict_set ?d ?k [] else ?d"
    let ?e = "\<lparr>se_video = v, se_strength = get_or (p_strength p) 0\<rparr>"
    from dict_get_setdefault[of ?d ?k]
    obtain h0 where h0: "dict_get ?d1 ?k = Some h0" by blast
    have k1: "dict_get ?d1 k = Some h"
      using Cons.prems(2) by (auto simp: dict_get_dict_set dict_contains_get)
    have "\<exists>h'. dict_get (dict_set ?d1 ?k (h0 @ [?e])) k = Some (h @ h')"
    proof (cases "k = ?k")
      case True
      with h0 k1 have "h0 = h" by simp
      with True show ?thesis by (simp add: dict_get_dict_set)
    next
      case False
      with k1 show ?thesis by (simp add: dict_get_dict_set)
    qed
    then obtain h' where h': "dict_get (dict_set ?d1 ?k (h0 @ [?e])) k = Some (h @ h')" by blast
    from Cons.prems(1) Some h0
    have "track_patterns (st\<lparr>pattern_strengths := dict_set ?d1 ?k (h0 @ [?e])\<rparr>) ps v = (st', r)"
      by (auto simp: Let_def split: if_splits)
    from Cons.IH[OF this, of "h @ h'"] h' show ?thesis by auto
  qed
qed

lemma track_correlations_appends:
  "track_correlations st cs v = (st', r) \<Longrightarrow> dict_get (correlation_matrix st) k = Some h \<Longrightarrow>
     \<exists>new. dict_get (correlation_matrix st') k = Some (h @ new)"
proof (induction cs arbitrary: st h)
  case Nil
  then show ?case by simp
next
  case (Cons c cs)
  show ?case
  proof (cases "feature_a c")
    case None
    with Cons.prems show ?thesis by simp
  next
    case a: (Some a)
    show ?thesis
    proof (cases "feature_b c")
      case None
      with a Cons.prems show ?thesis by simp
    next
      case b: (Some b)
      let ?d = "correlation_matrix st"
      let ?k = "a @ ''_'' @ b"
      let ?d1 = "if \<not> dict_contains ?d ?k then dict_set ?d ?k [] else ?d"
      from dict_get_setdefault[of ?d ?k]
      obtain h0 where h0: "dict_get ?d1 ?k = Some h0" by blast
      have k1: "dict_get ?d1 k = Some h"
        using Cons.prems(2) by (auto simp: dict_get_dict_set dict_contains_get)
      show ?thesis
      proof (cases "correlation c")
        case None
        with Cons.prems(1) a b h0 have "st' = st\<lparr>correlation_matrix := ?d1\<rparr>"
          by (auto simp: Let_def split: if_splits)
        with k1 show ?thesis by simp
      next
        case (Some x)
        let ?e = "\<lparr>ce_video = v, ce_value = x\<rparr>"
        have "\<exists>h'. dict_get (dict_set ?d1 ?k (h0 @ [?e])) k = Some (h @ h')"
        proof (cases "k = ?k")
          case True
          with h0 k1 have "h0 = h" by simp
          with True show ?thesis by (simp add: dict_get_dict_set)
        next
          case False
          with k1 show ?thesis by (simp add: dict_get_dict_set)
        qed
        then obtain h' where h': "dict_get (dict_set ?d1 ?k (h0 @ [?e])) k = Some (h @ h')" by blast
        from Cons.prems(1) a b Some h0
        have "track_correlations (st\<lparr>correlation_matrix := dict_set ?d1 ?k (h0 @ [?e])\<rparr>) cs v = (st', r)"
          by (auto simp: Let_def split: if_splits)
        from Cons.IH[OF this, of "h @ h'"] h' show ?thesis by auto
      qed
    qed
  qed
qed

lemma update_intelligence_appends:
  assumes u: "update_intelligence st d v now = (ok, st')"
  shows "(dict_get (pattern_strengths st) k = Some h \<longrightarrow>
            (\<exists>new. dict_get (pattern_strengths st') k = Some (h @ new))) \<and>
         (dict_get (correlation_matrix st) k = Some g \<longrightarrow>
            (\<exists>new. dict_get (correlation_matrix st') k = Some (g @ new)))"
proof -
  from u obtain r where "update_intelligence_body st d v now = (st', r)"
    by (cases "update_intelligence_body st d v now")
       (auto simp: update_intelligence_def split: option.splits)
  then obtain s3 ps s4 rp cs s5 rc where
    s3: "pattern_strengths s3 = pattern_strengths st \<and> correlation_matrix s3 = correlation_matrix st"
    and t4: "track_patterns s3 ps v = (s4, rp)"
    and t5: "track_correlations s4 cs v = (s5, rc)"
    and st': "(r \<noteq> None \<and> st' = s5) \<or>
              (r = None \<and> (\<exists>entry. st' = s5\<lparr>discoveries := discoveries s5 @ [entry]\<rparr>))"
    by (rule update_body_shape)
  from st' have same: "pattern_strengths st' = pattern_strengths s5"
      "correlation_matrix st' = correlation_matrix s5"
    by auto
  have p: "\<exists>new. dict_get (pattern_strengths s5) k = Some (h @ new)"
    if "dict_get (pattern_strengths st) k = Some h"
    using track_patterns_appends[OF t4, of k h] track_correlations_frame[OF t5] s3 that by simp
  have c: "\<exists>new. dict_get (correlation_matrix s5) k = Some (g @ new)"
    if "dict_get (correlation_matrix st) k = Some g"
    using track_correlations_appends[OF t5, of k g] track_patterns_frame[OF t4] s3 that by simp
  from same p c show ?thesis by simp
qed

lemma update_all_history:
  "update_all st calls = (oks, st') \<Longrightarrow> sorted (b # map (\<lambda>(d, v, now). v) calls) \<Longrightarrow>
   history_upto se_video b (pattern_strengths st) \<Longrightarrow>
   history_upto ce_video b (correlation_matrix st) \<Longrightarrow>
     history_upto se_video (last (b # map (\<lambda>(d, v, now). v) calls)) (pattern_strengths st') \<and>
     history_upto ce_video (last (b # map (\<lambda>(d, v, now). v) calls)) (correlation_matrix st')"
proof (induction calls arbitrary: st oks b)
  case Nil
  then show ?case by simp
next
  case (Cons c calls)
  obtain d v now where c: "c = (d, v, now)" by (cases c)
  obtain ok st1 where u: "update_intelligence st d v now = (ok, st1)"
    by (cases "update_intelligence st d v now")
  obtain oks1 where r: "update_all st1 calls = (oks1, st')"
    using Cons.prems(1) c u by (cases "update_all st1 calls") auto
  from Cons.prems(2) c have bv: "b \<le> v" and s: "sorted (v # map (\<lambda>(d, v, now). v) calls)"
    by simp_all
  from Cons.prems(3,4) bv have "history_upto se_video v (pattern_strengths st)"
      "history_upto ce_video v (correlation_matrix st)"
    by (blast intro: history_upto_mono)+
  from update_intelligence_history[OF u this]
  have "history_upto se_video v (pattern_strengths st1)" "history_upto ce_video v (correlation_matrix st1)"
    by simp_all
  from Cons.IH[OF r s this] c show ?case by simp
qed

lemma update_all_appends:
  "update_all st calls = (oks, st') \<Longrightarrow>
     (dict_get (pattern_strengths st) k = Some h \<longrightarrow>
        (\<exists>new. dict_get (pattern_strengths st') k = Some (h @ new))) \<and>
     (dict_get (correlation_matrix st) k = Some g \<longrightarrow>
        (\<exists>new. dict_get (correlation_matrix st') k = Some (g @ new)))"
proof (induction calls arbitrary: st oks h g)
  case Nil
  then show ?case by simp
next
  case (Cons c calls)
  obtain d v now where c: "c = (d, v, now)" by (cases c)
  obtain ok st1 where u: "update_intelligence st d v now = (ok, st1)"
    by (cases "update_intelligence st d v now")
  obtain oks1 where r: "update_all st1 calls = (oks1, st')"
    using Cons.prems(1) c u by (cases "update_all st1 calls") auto
  show ?case
  proof (intro conjI impI)
    assume "dict_get (pattern_strengths st) k = Some h"
    with update_intelligence_appends[OF u, of k h g]
    obtain n1 where "dict_get (pattern_strengths st1) k = Some (h @ n1)" by blast
    with Cons.IH[OF r, of "h @ n1" g]
    show "\<exists>new. dict_get (pattern_strengths st') k = Some (h @ new)" by auto
  next
    assume "dict_get (correlation_matrix st) k = Some g"
    with update_intelligence_appends[OF u, of k h g]
    obtain n1 where "dict_get (correlation_matrix st1) k = Some (g @ n1)" by blast
    with Cons.IH[OF r, of h "g @ n1"]
    show "\<exists>new. dict_get (correlation_matrix st') k = Some (g @ new)" by auto
  qed
qed

text \<open>
  C7. Take a state whose histories are in ascending video order with no video above
  \<open>b\<close> (the fresh state is one, for every \<open>b\<close>), and a sequence of successful calls of
  \<^verbatim>\<open>update_intelligence\<close> whose video numbers are non-decreasing and start at or
  above \<open>b\<close>. Afterwards every history under \<^verbatim>\<open>pattern_strengths\<close> and under
  \<^verbatim>\<open>correlation_matrix\<close> is in non-decreasing video order, and each history of the
  start state is a prefix of the history of the same key: entries are inserted at the
  end, in the order of the calls.
\<close>

theorem history_ordering:
  assumes run: "update_all st calls = (oks, st')"
    and ok: "list_all (\<lambda>ok. ok) oks"
    and ascending: "sorted (b # map (\<lambda>(d, v, now). v) calls)"
    and start: "history_upto se_video b (pattern_strengths st)"
               "history_upto ce_video b (correlation_matrix st)"
  shows "history_ordered st' \<and>
         (\<forall>k h. dict_get (pattern_strengths st) k = Some h \<longrightarrow>
            (\<exists>new. dict_get (pattern_strengths st') k = Some (h @ new))) \<and>
         (\<forall>k g. dict_get (correlation_matrix st) k = Some g \<longrightarrow>
            (\<exists>new. dict_get (correlation_matrix st') k = Some (g @ new)))"
proof -
  from update_all_history[OF run ascending start]
  have "history_ordered st'"
    by (auto simp: history_ordered_def history_upto_def list_all_iff)
  moreover from update_all_appends[OF run]
  have "\<forall>k h. dict_get (pattern_strengths st) k = Some h \<longrightarrow>
            (\<exists>new. dict_get (pattern_strengths st') k = Some (h @ new))"
       "\<forall>k g. dict_get (correlation_matrix st) k = Some g \<longrightarrow>
            (\<exists>new. dict_get (correlation_matrix st') k = Some (g @ new))"
    by blast+
  ultimately show ?thesis by blast
qed

lemma run_a_b:
  "update_all (fresh_state ''t0'') [call_a, call_b] =
     ([True, True],
      \<lparr>videos_processed = 2, total_patterns = 2, total_correlations = 1,
       unknown_space_used = 0, creation_time = ''t0'',
       discoveries = [\<lparr>de_video = 0, de_timestamp = ''t1'', patterns_found = 1,
                        correlations_found = 0, unknown_signals = 0\<rparr>,
                      \<lparr>de_video = 1, de_timestamp = ''t2'', patterns_found = 1,
                        correlations_found = 1, unknown_signals = 0\<rparr>],
       pattern_strengths = [(''micro_blink'', [\<lparr>se_video = 0, se_strength = 9 / 10\<rparr>,
                                               \<lparr>se_video = 1, se_strength = 1 / 2\<rparr>])],
       correlation_matrix = [(''brow_pitch'', [\<lparr>ce_video = 1, ce_value = 1 / 4\<rparr>])],
       state_meta_patterns = [], last_checkpoint = None\<rparr>)"
  by (simp add: call_a_def call_b_def fresh_state_def update_intelligence_def
      update_intelligence_body_def py_len_def py_iter_def get_or_def pattern_id_def
      dict_contains_def dict_get_def Let_def)

theorem history_ordering_witness:
  "sorted (0 # map (\<lambda>(d, v, now). v) [call_a, call_b]) \<and>
   history_upto se_video 0 (pattern_strengths (fresh_state ''t0'')) \<and>
   history_upto ce_video 0 (correlation_matrix (fresh_state ''t0'')) \<and>
   fst (update_all (fresh_state ''t0'') [call_a, call_b]) = [True, True] \<and>
   history_ordered (snd (update_all (fresh_state ''t0'') [call_a, call_b])) \<and>
   map (\<lambda>(k, h). (k, map se_video h))
     (pattern_strengths (snd (update_all (fresh_state ''t0'') [call_a, call_b])))
     = [(''micro_blink'', [0, 1])]"
proof -
  have a: "sorted (0 # map (\<lambda>(d, v, now). v) [call_a, call_b])"
    by (simp add: call_a_def call_b_def)
  have s: "history_upto se_video 0 (pattern_strengths (fresh_state ''t0''))"
     "history_upto ce_video 0 (correlation_matrix (fresh_state ''t0''))"
    by (simp_all add: history_upto_def fresh_state_def)
  have o: "list_all (\<lambda>ok. ok) [True, True]" by simp
  from history_ordering[OF run_a_b o a s] a s show ?thesis
    by (simp add: run_a_b)
qed


section \<open>A merge step that fails\<close>

text \<open>
  C2 as stated fails: on the fresh state, a discovery whose one pattern has no key
  \<^verbatim>\<open>type\<close> makes the call return \<^verbatim>\<open>False\<close> with \<^verbatim>\<open>videos_processed\<close>
  at one.
\<close>

theorem atomic_merge_counterexample:
  "fst (update_intelligence (fresh_state ''t0'') untyped_discovery 0 ''t1'') = False \<and>
   snd (update_intelligence (fresh_state ''t0'') untyped_discovery 0 ''t1'') \<noteq> fresh_state ''t0'' \<and>
   videos_processed (snd (update_intelligence (fresh_state ''t0'') untyped_discovery 0 ''t1'')) = 1"
  by (simp add: untyped_discovery_def untyped_pattern_def fresh_state_def update_intelligence_def
      update_intelligence_body_def py_len_def py_iter_def get_or_def)

text \<open>
  Where the block stops decides what is left behind. A missing \<^verbatim>\<open>type\<close> stops it in
  the pattern loop, with both totals raised; \<^verbatim>\<open>None\<close> under \<^verbatim>\<open>patterns\<close> stops
  it at the first \<^verbatim>\<open>len\<close>, with no total raised; \<^verbatim>\<open>None\<close> under
  \<^verbatim>\<open>unknown\<close> stops it at the log entry, with the totals raised and the histories
  extended.
\<close>

lemma failed_at_type:
  "update_intelligence (fresh_state ''t0'') untyped_discovery 0 ''t1''
     = (False, (fresh_state ''t0'')\<lparr>videos_processed := 1, total_patterns := 1\<rparr>)"
  by (simp add: untyped_discovery_def untyped_pattern_def fresh_state_def update_intelligence_def
      update_intelligence_body_def py_len_def py_iter_def get_or_def)

lemma failed_at_len:
  "update_intelligence (fresh_state ''t0'') unsized_discovery 0 ''t1''
     = (False, (fresh_state ''t0'')\<lparr>videos_processed := 1\<rparr>)"
  by (simp add: unsized_discovery_def fresh_state_def update_intelligence_def
      update_intelligence_body_def py_len_def py_iter_def get_or_def)

lemma failed_at_log_entry:
  "update_intelligence (fresh_state ''t0'') unsized_unknown_discovery 0 ''t1''
     = (False, (fresh_state ''t0'')\<lparr>videos_processed := 1, total_patterns := 1,
          pattern_strengths := [(''micro_blink'', [\<lparr>se_video = 0, se_strength = 9 / 10\<rparr>])]\<rparr>)"
  by (simp add: unsized_unknown_discovery_def fresh_state_def update_intelligence_def
      update_intelligence_body_def py_len_def py_iter_def get_or_def pattern_id_def
      dict_contains_def dict_get_def Let_def)

text \<open>
  C2, as the code has it. The merge is not atomic. A call of
  \<^verbatim>\<open>update_intelligence\<close> that returns \<^verbatim>\<open>False\<close> has appended nothing to the
  discoveries log and has left the creation time, the meta-patterns and every recorded
  history entry as they were; but it has already incremented
  \<^verbatim>\<open>videos_processed\<close>, so the state is never the one before the call, and it may
  have raised \<^verbatim>\<open>total_patterns\<close>, then \<^verbatim>\<open>total_correlations\<close>, by the size of
  the input list, and may have appended entries at the end of histories.
\<close>

theorem failed_update_partial:
  assumes "update_intelligence st d v now = (False, st')"
  shows "st' \<noteq> st \<and>
     videos_processed st' = videos_processed st + 1 \<and>
     discoveries st' = discoveries st \<and> creation_time st' = creation_time st \<and>
     unknown_space_used st' = unknown_space_used st \<and>
     state_meta_patterns st' = state_meta_patterns st \<and> last_checkpoint st' = last_checkpoint st \<and>
     ((total_patterns st' = total_patterns st \<and> total_correlations st' = total_correlations st) \<or>
      (total_patterns st' = total_patterns st + int (length (field_items (patterns d))) \<and>
       (total_correlations st' = total_correlations st \<or>
        total_correlations st' =
          total_correlations st + int (length (field_items (correlations d)))))) \<and>
     (\<forall>k h. dict_get (pattern_strengths st) k = Some h \<longrightarrow>
        (\<exists>new. dict_get (pattern_strengths st') k = Some (h @ new))) \<and>
     (\<forall>k g. dict_get (correlation_matrix st) k = Some g \<longrightarrow>
        (\<exists>new. dict_get (correlation_matrix st') k = Some (g @ new)))"
proof -
  from assms obtain err where b: "update_intelligence_body st d v now = (st', Some err)"
    by (auto simp: update_intelligence_def split: prod.splits option.splits)
  then obtain s3 ps s4 rp cs s5 rc where
    s3: "videos_processed s3 = videos_processed st + 1"
        "discoveries s3 = discoveries st \<and> creation_time s3 = creation_time st \<and>
         unknown_space_used s3 = unknown_space_used st \<and>
         state_meta_patterns s3 = state_meta_patterns st \<and> last_checkpoint s3 = last_checkpoint st"
        "(total_patterns s3 = total_patterns st \<and> total_correlations s3 = total_correlations st) \<or>
         (total_patterns s3 = total_patterns st + int (length (field_items (patterns d))) \<and>
          (total_correlations s3 = total_correlations st \<or>
           total_correlations s3 =
             total_correlations st + int (length (field_items (correlations d)))))"
    and t4: "track_patterns s3 ps v = (s4, rp)"
    and t5: "track_correlations s4 cs v = (s5, rc)"
    and st': "(Some err \<noteq> None \<and> st' = s5) \<or>
              (Some err = None \<and> (\<exists>entry. st' = s5\<lparr>discoveries := discoveries s5 @ [entry]\<rparr>))"
    by (rule update_body_shape)
  from st' have e: "st' = s5" by simp
  from track_patterns_frame[OF t4] track_correlations_frame[OF t5] s3 e
  have frame: "videos_processed st' = videos_processed st + 1 \<and>
     discoveries st' = discoveries st \<and> creation_time st' = creation_time st \<and>
     unknown_space_used st' = unknown_space_used st \<and>
     state_meta_patterns st' = state_meta_patterns st \<and> last_checkpoint st' = last_checkpoint st \<and>
     ((total_patterns st' = total_patterns st \<and> total_correlations st' = total_correlations st) \<or>
      (total_patterns st' = total_patterns st + int (length (field_items (patterns d))) \<and>
       (total_correlations st' = total_correlations st \<or>
        total_correlations st' =
          total_correlations st + int (length (field_items (correlations d))))))"
    by simp
  then have "videos_processed st' \<noteq> videos_processed st" by simp
  then have ne: "st' \<noteq> st" by auto
  from update_intelligence_appends[OF assms]
  have app: "\<forall>k h. dict_get (pattern_strengths st) k = Some h \<longrightarrow>
        (\<exists>new. dict_get (pattern_strengths st') k = Some (h @ new))"
       "\<forall>k g. dict_get (correlation_matrix st) k = Some g \<longrightarrow>
        (\<exists>new. dict_get (correlation_matrix st') k = Some (g @ new))"
    by blast+
  from ne frame app show ?thesis by blast
qed

theorem failed_update_partial_witness:
  "update_intelligence (fresh_state ''t0'') unsized_discovery 0 ''t1''
     = (False, (fresh_state ''t0'')\<lparr>videos_processed := 1\<rparr>) \<and>
   (fresh_state ''t0'')\<lparr>videos_processed := 1\<rparr> \<noteq> fresh_state ''t0'' \<and>
   videos_processed ((fresh_state ''t0'')\<lparr>videos_processed := 1\<rparr>) = 1 \<and>
   total_patterns ((fresh_state ''t0'')\<lparr>videos_processed := 1\<rparr>) = 0 \<and>
   total_correlations ((fresh_state ''t0'')\<lparr>videos_processed := 1\<rparr>) = 0 \<and>
   discoveries ((fresh_state ''t0'')\<lparr>videos_processed := 1\<rparr>) = []"
proof -
  from failed_update_partial[OF failed_at_len]
  have "(fresh_state ''t0'')\<lparr>videos_processed := 1\<rparr> \<noteq> fresh_state ''t0''"
    by blast
  with failed_at_len show ?thesis by (simp add: fresh_state_def)
qed

section \<open>Properties of the checkpoint store\<close>

text \<open>
  A save that returns \<^verbatim>\<open>True\<close> wrote both files, and the summary did not replace
  the pickle: the two names differ.
\<close>

lemma checkpoint_path_neq_discoveries_path: "checkpoint_path n \<noteq> discoveries_path m"
  by (simp add: checkpoint_path_def discoveries_path_def)

lemma save_checkpoint_True:
  assumes "save_checkpoint np_mean wp ws t fs e n = (True, fs')"
  shows "wp = Written \<and> ws = Written \<and>
         dict_get (checkpoint_dir fs') (checkpoint_path n)
           = Some \<lparr>mtime = t, content = Pickled (state e)\<rparr> \<and>
         discovery_dir fs' = discovery_dir fs"
proof -
  from assms have w: "wp = Written" "ws = Written"
    by (cases wp; cases ws;
        simp add: save_checkpoint_def save_checkpoint_body_def write_file_def Let_def)+
  with assms have "fs' = fs\<lparr>checkpoint_dir :=
      dict_set (dict_set (checkpoint_dir fs) (checkpoint_path n) \<lparr>mtime = t, content = Pickled (state e)\<rparr>)
        (discoveries_path n)
        \<lparr>mtime = t, content = Summary
           \<lparr>rs_videos_processed = videos_processed (state e),
            rs_total_patterns = total_patterns (state e),
            rs_total_correlations = total_correlations (state e),
            top_patterns = get_top_patterns np_mean (state e) 10,
            pattern_evolution = get_pattern_evolution_summary (state e)\<rparr>\<rparr>\<rparr>"
    by (simp add: save_checkpoint_def save_checkpoint_body_def write_file_def Let_def)
  with w show ?thesis
    by (simp add: dict_get_dict_set checkpoint_path_neq_discoveries_path)
qed

text \<open>
  C5. After \<^verbatim>\<open>save_checkpoint\<close> at index \<open>n\<close> has returned \<^verbatim>\<open>True\<close>, a fresh
  engine over a store whose latest checkpoint is the one just written starts with the
  saved state: its snapshot agrees with the snapshot before the save on
  \<^verbatim>\<open>videos_processed\<close>, both totals, the three metrics and \<^verbatim>\<open>last_checkpoint\<close>,
  and on the whole snapshot when the saving engine's \<^verbatim>\<open>unknown_space\<close> is empty, as
  the constructor leaves it. The snapshot holds no timestamp.
\<close>

theorem resume_round_trip:
  assumes save: "save_checkpoint np_mean wp ws t fs e n = (True, fs')"
    and latest: "find_latest_checkpoint fs' = Some (checkpoint_path n)"
  shows "engine_init fs' now = Inr \<lparr>state = state e, unknown_space = []\<rparr> \<and>
         sv_videos_processed (get_current_state \<lparr>state = state e, unknown_space = []\<rparr>)
           = sv_videos_processed (get_current_state e) \<and>
         sv_total_patterns (get_current_state \<lparr>state = state e, unknown_space = []\<rparr>)
           = sv_total_patterns (get_current_state e) \<and>
         sv_total_correlations (get_current_state \<lparr>state = state e, unknown_space = []\<rparr>)
           = sv_total_correlations (get_current_state e) \<and>
         sv_metrics (get_current_state \<lparr>state = state e, unknown_space = []\<rparr>)
           = sv_metrics (get_current_state e) \<and>
         sv_last_checkpoint (get_current_state \<lparr>state = state e, unknown_space = []\<rparr>)
           = sv_last_checkpoint (get_current_state e) \<and>
         (unknown_space e = [] \<longrightarrow>
            get_current_state \<lparr>state = state e, unknown_space = []\<rparr> = get_current_state e)"
proof -
  from save_checkpoint_True[OF save]
  have "dict_get (checkpoint_dir fs') (checkpoint_path n)
           = Some \<lparr>mtime = t, content = Pickled (state e)\<rparr>" by simp
  with latest have "engine_init fs' now = Inr \<lparr>state = state e, unknown_space = []\<rparr>"
    by (simp add: engine_init_def load_or_initialize_state_def)
  then show ?thesis by (simp add: get_current_state_def)
qed

lemma checkpoint_path_1: "checkpoint_path 1 = ''intelligence_v0001.pkl''"
  by code_simp

lemma discoveries_path_1: "discoveries_path 1 = ''discoveries_v0001.json''"
  by code_simp

lemma save_a:
  "save_checkpoint exact_mean Written Written 9 fs_a engine_a 1 =
     (True, snd (save_checkpoint exact_mean Written Written 9 fs_a engine_a 1))"
  by (simp add: save_checkpoint_def save_checkpoint_body_def write_file_def Let_def)

lemma latest_a:
  "find_latest_checkpoint (snd (save_checkpoint exact_mean Written Written 9 fs_a engine_a 1))
     = Some (checkpoint_path 1)"
  by (simp add: save_checkpoint_def save_checkpoint_body_def write_file_def Let_def
      checkpoint_path_1 discoveries_path_1 fs_a_def find_latest_checkpoint_def glob_checkpoint_def)

theorem resume_round_trip_witness:
  "fst (save_checkpoint exact_mean Written Written 9 fs_a engine_a 1) = True \<and>
   find_latest_checkpoint (snd (save_checkpoint exact_mean Written Written 9 fs_a engine_a 1))
     = Some (checkpoint_path 1) \<and>
   engine_init (snd (save_checkpoint exact_mean Written Written 9 fs_a engine_a 1)) ''t9''
     = Inr engine_a \<and>
   sv_videos_processed (get_current_state engine_a) = 2"
proof -
  have e: "\<lparr>state = state engine_a, unknown_space = []\<rparr> = engine_a"
    by (simp add: engine_a_def)
  have s: "fst (save_checkpoint exact_mean Written Written 9 fs_a engine_a 1) = True"
    using save_a by (simp add: prod_eq_iff)
  from resume_round_trip[OF save_a latest_a, of "''t9''"]
  have "engine_init (snd (save_checkpoint exact_mean Written Written 9 fs_a engine_a 1)) ''t9''
          = Inr \<lparr>state = state engine_a, unknown_space = []\<rparr>"
    by (rule conjunct1)
  then have i: "engine_init (snd (save_checkpoint exact_mean Written Written 9 fs_a engine_a 1)) ''t9''
          = Inr engine_a"
    unfolding e .
  have v: "sv_videos_processed (get_current_state engine_a) = 2"
    by (simp add: get_current_state_def engine_a_def run_a_b)
  from s latest_a i v show ?thesis by blast
qed

text \<open>
  \<^verbatim>\<open>save_checkpoint\<close> returns \<^verbatim>\<open>True\<close> exactly when both writes succeeded, and
  \<^verbatim>\<open>False\<close> exactly when its \<^verbatim>\<open>try\<close> block raised.
\<close>

lemma save_checkpoint_flag:
  "fst (save_checkpoint np_mean wp ws t fs e n) = (wp = Written \<and> ws = Written)"
  by (cases wp; cases ws)
     (simp_all add: save_checkpoint_def save_checkpoint_body_def write_file_def Let_def)

lemma save_checkpoint_error_is_False:
  "(\<exists>err. snd (save_checkpoint_body np_mean wp ws t fs e n) = Some err)
     \<longleftrightarrow> \<not> fst (save_checkpoint np_mean wp ws t fs e n)"
  by (cases "save_checkpoint_body np_mean wp ws t fs e n")
     (auto simp: save_checkpoint_def split: option.splits)

text \<open>
  C6. \<^verbatim>\<open>process_video\<close> returns a response whatever the two checkpoint writes do:
  its \<^verbatim>\<open>checkpoint_saved\<close> flag is true exactly when both writes succeeded, that is
  when the \<^verbatim>\<open>try\<close> block of \<^verbatim>\<open>save_checkpoint\<close> raised nothing; its
  \<^verbatim>\<open>intelligence_updated\<close> flag and the state of the engine afterwards are those of
  \<^verbatim>\<open>update_intelligence\<close>; and the engine afterwards is the same under every other
  outcome of the two writes.
\<close>

theorem checkpoint_failure_nonfatal:
  assumes "process_video out rq e fs = (resp, e', fs')"
  shows "checkpoint_saved resp = (pickle_write out = Written \<and> summary_write out = Written) \<and>
         checkpoint_saved resp =
           (snd (save_checkpoint_body (mean_of out) (pickle_write out) (summary_write out) (clock_tick out)
                   (if store_raw rq
                    then snd (store_raw_features (raw_write out) (clock_tick out) (clock_iso out) fs
                                (video_number rq) (extract_everything (sim out) (video_path rq)))
                    else fs)
                   e' (video_number rq)) = None) \<and>
         (intelligence_updated resp, state e') =
           update_intelligence (state e)
             (discover_patterns (state e) (rnd out)
                (extract_everything (sim out) (video_path rq)) (video_number rq) True)
             (video_number rq) (clock_iso out) \<and>
         unknown_space e' = unknown_space e \<and>
         fst (snd (process_video (out\<lparr>pickle_write := wp, summary_write := ws\<rparr>) rq e fs)) = e'"
proof -
  let ?fts = "extract_everything (sim out) (video_path rq)"
  let ?ds = "discover_patterns (state e) (rnd out) ?fts (video_number rq) True"
  let ?fs1 = "if store_raw rq
              then snd (store_raw_features (raw_write out) (clock_tick out) (clock_iso out) fs
                          (video_number rq) ?fts)
              else fs"
  obtain updated st1 where u: "update_intelligence (state e) ?ds (video_number rq) (clock_iso out)
      = (updated, st1)"
    by (cases "update_intelligence (state e) ?ds (video_number rq) (clock_iso out)")
  obtain saved fs2 where s: "save_checkpoint (mean_of out) (pickle_write out) (summary_write out) (clock_tick out)
      ?fs1 (e\<lparr>state := st1\<rparr>) (video_number rq) = (saved, fs2)"
    by (cases "save_checkpoint (mean_of out) (pickle_write out) (summary_write out) (clock_tick out)
      ?fs1 (e\<lparr>state := st1\<rparr>) (video_number rq)")
  from assms u s have r: "checkpoint_saved resp = saved" "intelligence_updated resp = updated"
      "e' = e\<lparr>state := st1\<rparr>"
    by (auto simp: process_video_def Let_def)
  from s save_checkpoint_flag[of "mean_of out" "pickle_write out" "summary_write out" "clock_tick out" ?fs1
      "e\<lparr>state := st1\<rparr>" "video_number rq"]
  have f: "saved = (pickle_write out = Written \<and> summary_write out = Written)" by simp
  from s save_checkpoint_error_is_False[of "mean_of out" "pickle_write out" "summary_write out" "clock_tick out" ?fs1
      "e\<lparr>state := st1\<rparr>" "video_number rq"]
  have b: "saved = (snd (save_checkpoint_body (mean_of out) (pickle_write out) (summary_write out) (clock_tick out)
                   ?fs1 (e\<lparr>state := st1\<rparr>) (video_number rq)) = None)"
    by auto
  have o: "fst (snd (process_video (out\<lparr>pickle_write := wp, summary_write := ws\<rparr>) rq e fs))
      = e\<lparr>state := st1\<rparr>"
    using u by (simp add: process_video_def Let_def split: prod.splits)
  from r f b u o show ?thesis by simp
qed

lemma process_a:
  "fst (process_video outside_a request_a engine_0 fs_a) =
     \<lparr>rs_video_number = 0, features_extracted = 5, rs_patterns_discovered = [],
      rs_correlations_found = [],
      rs_unknown_signals = [\<lparr>variance = 2, kurtosis = 1 / 2, emergence_potential = ''high'',
                              requires_investigation = True\<rparr>],
      intelligence_updated = True, checkpoint_saved = False\<rparr> \<and>
   videos_processed (state (fst (snd (process_video outside_a request_a engine_0 fs_a)))) = 1 \<and>
   length (discoveries (state (fst (snd (process_video outside_a request_a engine_0 fs_a))))) = 1 \<and>
   checkpoint_dir (snd (snd (process_video outside_a request_a engine_0 fs_a))) = checkpoint_dir fs_a"
  by (simp add: process_video_def outside_a_def request_a_def engine_0_def fresh_state_def
      extract_everything_def discover_patterns_def explore_unknown_space_def draws_a_def
      update_intelligence_def update_intelligence_body_def py_len_def py_iter_def field_items_def
      get_or_def save_checkpoint_def save_checkpoint_body_def write_file_def
      store_raw_features_def Let_def)

theorem checkpoint_failure_nonfatal_witness:
  "checkpoint_saved (fst (process_video outside_a request_a engine_0 fs_a)) = False \<and>
   intelligence_updated (fst (process_video outside_a request_a engine_0 fs_a)) = True \<and>
   videos_processed (state (fst (snd (process_video outside_a request_a engine_0 fs_a)))) = 1 \<and>
   pickle_write outside_a = OpenFails \<and>
   fst (snd (process_video (outside_a\<lparr>pickle_write := Written, summary_write := Written\<rparr>)
               request_a engine_0 fs_a))
     = fst (snd (process_video outside_a request_a engine_0 fs_a))"
proof -
  have p: "process_video outside_a request_a engine_0 fs_a =
      (fst (process_video outside_a request_a engine_0 fs_a),
       fst (snd (process_video outside_a request_a engine_0 fs_a)),
       snd (snd (process_video outside_a request_a engine_0 fs_a)))"
    by simp
  from checkpoint_failure_nonfatal[OF p, of Written Written]
  have "fst (snd (process_video (outside_a\<lparr>pickle_write := Written, summary_write := Written\<rparr>)
               request_a engine_0 fs_a))
     = fst (snd (process_video outside_a request_a engine_0 fs_a))"
    by blast
  moreover have "pickle_write outside_a = OpenFails" by (simp add: outside_a_def)
  moreover note process_a
  ultimately show ?thesis by simp
qed


subsection \<open>When the saved checkpoint is the latest\<close>

text \<open>
  The hypothesis of the round trip holds whenever the save happens at a clock reading
  beyond the modification time of every checkpoint already in the store:
  \<^verbatim>\<open>max\<close> returns a greatest element, and the only file matching
  \<^verbatim>\<open>intelligence_v*.pkl\<close> with the new modification time is the one just written.
\<close>

lemma py_max_from_member: "py_max_from f b xs \<in> set (b # xs)"
  by (induction xs arbitrary: b) auto

lemma py_max_from_greatest: "y \<in> set (b # xs) \<Longrightarrow> f y \<le> f (py_max_from f b xs)"
proof (induction xs arbitrary: b y)
  case Nil
  then show ?case by simp
next
  case (Cons x xs)
  have b: "f b \<le> f (py_max_from f (if f b < f x then x else b) xs)"
  proof (cases "f b < f x")
    case True
    with Cons.IH[of x x] show ?thesis by simp
  next
    case False
    with Cons.IH[of b b] show ?thesis by simp
  qed
  have x: "f x \<le> f (py_max_from f (if f b < f x then x else b) xs)"
  proof (cases "f b < f x")
    case True
    with Cons.IH[of x x] show ?thesis by simp
  next
    case False
    with Cons.IH[of b b] show ?thesis by simp
  qed
  from Cons.prems consider "y = b" | "y = x" | "y \<in> set xs" by auto
  then show ?case
  proof cases
    case 1
    with b show ?thesis by simp
  next
    case 2
    with x show ?thesis by simp
  next
    case 3
    then have "y \<in> set ((if f b < f x then x else b) # xs)" by simp
    from Cons.IH[OF this] show ?thesis by simp
  qed
qed

lemma glob_checkpoint_path: "glob_checkpoint (checkpoint_path n)"
  by (simp add: glob_checkpoint_def checkpoint_path_def)

lemma glob_discoveries_path: "\<not> glob_checkpoint (discoveries_path n)"
  by (simp add: glob_checkpoint_def discoveries_path_def)

lemma dict_set_has: "(k, x) \<in> set (dict_set d k x)"
  by (induction d) auto

lemma dict_set_keeps: "k' \<noteq> k \<Longrightarrow> (k', x') \<in> set d \<Longrightarrow> (k', x') \<in> set (dict_set d k x)"
  by (induction d) auto

lemma latest_after_save:
  assumes save: "save_checkpoint np_mean wp ws t fs e n = (True, fs')"
    and later: "\<forall>(name, f) \<in> set (checkpoint_dir fs). glob_checkpoint name \<longrightarrow> mtime f < t"
  shows "find_latest_checkpoint fs' = Some (checkpoint_path n)"
proof -
  let ?cp = "checkpoint_path n" and ?dp = "discoveries_path n"
  let ?F = "\<lparr>mtime = t, content = Pickled (state e)\<rparr>"
  from save obtain G where fs': "checkpoint_dir fs' = dict_set (dict_set (checkpoint_dir fs) ?cp ?F) ?dp G"
    by (cases wp; cases ws)
       (auto simp: save_checkpoint_def save_checkpoint_body_def write_file_def Let_def)
  let ?cps = "filter (\<lambda>(name, f). glob_checkpoint name) (checkpoint_dir fs')"
  have "(?cp, ?F) \<in> set (dict_set (checkpoint_dir fs) ?cp ?F)" by (rule dict_set_has)
  with checkpoint_path_neq_discoveries_path[of n n]
  have "(?cp, ?F) \<in> set (checkpoint_dir fs')"
    unfolding fs' by (rule dict_set_keeps)
  then have new: "(?cp, ?F) \<in> set ?cps" by (simp add: glob_checkpoint_path)
  have old: "name = ?cp \<or> mtime f < t" if "(name, f) \<in> set ?cps" for name f
  proof -
    from that have g: "glob_checkpoint name" and m: "(name, f) \<in> set (checkpoint_dir fs')" by auto
    from m[unfolded fs'] dict_set_member[of name f _ ?dp G]
    have "(name, f) = (?dp, G) \<or> (name, f) \<in> set (dict_set (checkpoint_dir fs) ?cp ?F)" by blast
    with g glob_discoveries_path[of n] have "(name, f) \<in> set (dict_set (checkpoint_dir fs) ?cp ?F)"
      by auto
    from dict_set_member[OF this] have "(name, f) = (?cp, ?F) \<or> (name, f) \<in> set (checkpoint_dir fs)" .
    with g later show ?thesis by auto
  qed
  from new obtain c cs where ccs: "?cps = c # cs" by (cases ?cps) auto
  let ?r = "py_max_from (\<lambda>(name, f). mtime f) c cs"
  have "?r \<in> set ?cps" unfolding ccs by (rule py_max_from_member)
  moreover have "(\<lambda>(name, f). mtime f) (?cp, ?F) \<le> (\<lambda>(name, f). mtime f) ?r"
    using new unfolding ccs by (rule py_max_from_greatest)
  ultimately have "fst ?r = ?cp"
    using old[of "fst ?r" "snd ?r"] by (auto simp: case_prod_beta)
  then show ?thesis by (simp add: find_latest_checkpoint_def ccs)
qed

end
